theory Spec2Isabelle
  imports Complex_Main
begin

section \<open>Values and functions of the platform\<close>

text \<open>
  A value of type \<open>unknown\<close> that came from JSON is a \<open>json\<close>; an object
  (\<open>Record<string, unknown>\<close>) is the list of its own properties in the order in which
  the platform enumerates them (the integer-like keys first, ascending, then the other
  keys in insertion order), read with \<^const>\<open>map_of\<close>.
\<close>

datatype json =
    JNull
  | JBool bool
  | JNum rat
  | JStr string
  | JArr "json list"
  | JObj "(string \<times> json) list"

type_synonym jobject = "(string \<times> json) list"

text \<open>
  What the code throws: \<open>new Error(message)\<close>, or a \<open>TypeError\<close> or \<open>SyntaxError\<close>
  of the platform.
\<close>

datatype error = Error string | TypeError string | SyntaxError string

text \<open>
  \<open>JSON.parse\<close>, \<open>JSON.stringify\<close>, \<open>Number(s)\<close>, the regular expression engine and the
  case mapping of strings belong to the platform; the functions that call them take
  them as a parameter. \<open>jsonParse s\<close> is \<open>None\<close> where \<open>JSON.parse(s)\<close> throws.
  \<open>regexTest src s\<close> is \<open>new RegExp(src).test(s)\<close>: the error that the constructor
  throws on a source that is no regular expression, or the answer of \<open>test\<close>.
  \<open>toLowerCase s\<close> and \<open>toUpperCase s\<close> are \<open>s.toLowerCase()\<close> and
  \<open>s.toUpperCase()\<close>.
\<close>

record platform =
  jsonParse :: "string \<Rightarrow> json option"
  jsonStringify :: "json \<Rightarrow> string"
  jsonStringifyPretty :: "json \<Rightarrow> string"
  regexTest :: "string \<Rightarrow> string \<Rightarrow> error + bool"
  toNumber :: "string \<Rightarrow> json"
  toLowerCase :: "string \<Rightarrow> string"
  toUpperCase :: "string \<Rightarrow> string"

text \<open>\<open>xs.join(sep)\<close> on a list of strings.\<close>

fun join :: "string \<Rightarrow> string list \<Rightarrow> string" where
  "join sep [] = []"
| "join sep [x] = x"
| "join sep (x # y # ys) = x @ sep @ join sep (y # ys)"

text \<open>A natural number in a template string: its decimal digits.\<close>

definition digit_char :: "nat \<Rightarrow> char" where
  "digit_char d = ''0123456789'' ! d"

function show_nat :: "nat \<Rightarrow> string" where
  "show_nat n = (if n < 10 then [digit_char n] else show_nat (n div 10) @ [digit_char (n mod 10)])"
  by pat_completeness auto
termination
  by (relation "measure id") auto

declare show_nat.simps [simp del]

text \<open>
  \<open>obj[key]\<close> and \<open>key in obj\<close> on a plain object also find the properties inherited
  from \<open>Object.prototype\<close>.
\<close>

datatype 'a property = Own 'a | Inherited | Missing

definition objectPrototypeKeys :: "string list" where
  "objectPrototypeKeys =
     [''constructor'', ''__defineGetter__'', ''__defineSetter__'', ''hasOwnProperty'',
      ''__lookupGetter__'', ''__lookupSetter__'', ''isPrototypeOf'', ''propertyIsEnumerable'',
      ''toString'', ''valueOf'', ''__proto__'', ''toLocaleString'']"

definition getProperty :: "(string \<times> 'a) list \<Rightarrow> string \<Rightarrow> 'a property" where
  "getProperty obj key =
     (case map_of obj key of
        Some v \<Rightarrow> Own v
      | None \<Rightarrow> if key \<in> set objectPrototypeKeys then Inherited else Missing)"

section \<open>Strings as the source uses them\<close>

text \<open>
  A JavaScript string is modelled as a \<^typ>\<open>string\<close>, one \<^typ>\<open>char\<close> per code unit.
  \<open>s.startsWith(p)\<close>, \<open>s.endsWith(p)\<close>, \<open>s.includes(p)\<close>, \<open>s.slice(n)\<close> and
  \<open>s.indexOf(c)\<close> are written out on lists.
\<close>

definition startsWith :: "string \<Rightarrow> string \<Rightarrow> bool" where
  "startsWith s p = (take (length p) s = p)"

definition endsWith :: "string \<Rightarrow> string \<Rightarrow> bool" where
  "endsWith s p = (length p \<le> length s \<and> drop (length s - length p) s = p)"

fun str_includes :: "string \<Rightarrow> string \<Rightarrow> bool" where
  "str_includes [] p = (p = [])"
| "str_includes (c # cs) p = (startsWith (c # cs) p \<or> str_includes cs p)"

definition slice_from :: "string \<Rightarrow> nat \<Rightarrow> string" where
  "slice_from s n = drop n s"

section \<open>Tool name namespacing (multiplexer/namespace.ts)\<close>

definition DEFAULT_SEPARATOR :: string where
  "DEFAULT_SEPARATOR = ''__''"

definition namespaceTool :: "string \<Rightarrow> string \<Rightarrow> string \<Rightarrow> string" where
  "namespaceTool serverName toolName separator = serverName @ separator @ toolName"

record ParsedTool =
  pt_serverName :: string
  pt_toolName :: string

text \<open>
  \<open>[...knownServers].sort((a, b) => b.length - a.length)\<close>: the sort of the platform is
  stable, so it is the stable insertion sort on the key \<open>- length\<close>.
\<close>

definition sortByLengthDesc :: "string list \<Rightarrow> string list" where
  "sortByLengthDesc knownServers = sort_key (\<lambda>a. - int (length a)) knownServers"

text \<open>The \<open>for (const server of sorted)\<close> loop, returning at the first matching prefix.\<close>

fun parseLoop :: "string \<Rightarrow> string \<Rightarrow> string list \<Rightarrow> ParsedTool option" where
  "parseLoop namespacedName separator [] = None"
| "parseLoop namespacedName separator (server # rest) =
     (let prefix = server @ separator in
      if startsWith namespacedName prefix
      then Some \<lparr>pt_serverName = server,
                 pt_toolName = slice_from namespacedName (length prefix)\<rparr>
      else parseLoop namespacedName separator rest)"

definition parseNamespacedTool :: "string \<Rightarrow> string list \<Rightarrow> string \<Rightarrow> ParsedTool option" where
  "parseNamespacedTool namespacedName knownServers separator =
     parseLoop namespacedName separator (sortByLengthDesc knownServers)"

definition stripNamespace :: "string \<Rightarrow> string \<Rightarrow> string \<Rightarrow> string" where
  "stripNamespace namespacedName serverName separator =
     (let prefix = serverName @ separator in
      if startsWith namespacedName prefix
      then slice_from namespacedName (length prefix)
      else namespacedName)"

section \<open>Reconnect backoff (multiplexer/reconnect.ts)\<close>

text \<open>
  \<open>ReconnectOptions\<close> has three optional fields; \<open>{ ...DEFAULT_OPTIONS, ...options }\<close>
  takes a field of \<open>options\<close> where it is present and the default otherwise. The attempt
  number is a natural number and the delays are whole milliseconds: on these the
  platform's arithmetic is exact as long as the product stays below \<open>2^53\<close>, and beyond
  that the product still exceeds every finite \<open>maxDelayMs\<close> that is in the exact range, so
  \<open>Math.min\<close> returns the same value as on the integers.
\<close>

record ReconnectOptions =
  maxAttempts :: "nat option"
  initialDelayMs :: "nat option"
  maxDelayMs :: "nat option"

record ResolvedReconnectOptions =
  r_maxAttempts :: nat
  r_initialDelayMs :: nat
  r_maxDelayMs :: nat

definition DEFAULT_OPTIONS :: ResolvedReconnectOptions where
  "DEFAULT_OPTIONS = \<lparr>r_maxAttempts = 5, r_initialDelayMs = 1000, r_maxDelayMs = 30000\<rparr>"

definition mergeOptions :: "ResolvedReconnectOptions \<Rightarrow> ReconnectOptions option \<Rightarrow> ResolvedReconnectOptions" where
  "mergeOptions d options =
     (case options of
        None \<Rightarrow> d
      | Some opts \<Rightarrow>
          \<lparr>r_maxAttempts = (case maxAttempts opts of None \<Rightarrow> r_maxAttempts d | Some v \<Rightarrow> v),
           r_initialDelayMs = (case initialDelayMs opts of None \<Rightarrow> r_initialDelayMs d | Some v \<Rightarrow> v),
           r_maxDelayMs = (case maxDelayMs opts of None \<Rightarrow> r_maxDelayMs d | Some v \<Rightarrow> v)\<rparr>)"

definition calculateBackoff :: "nat \<Rightarrow> ReconnectOptions option \<Rightarrow> nat" where
  "calculateBackoff attempt options =
     (let opts = mergeOptions DEFAULT_OPTIONS options;
          delay = r_initialDelayMs opts * 2 ^ attempt
      in min delay (r_maxDelayMs opts))"

section \<open>Fuzzy matching (util/fuzzy.ts)\<close>

text \<open>
  Scores are multiples of one half, which the platform's numbers represent exactly; they
  are rationals here. The case mapping is the platform's.
\<close>

text \<open>\<open>s[i]\<close> is \<open>undefined\<close> out of range.\<close>

definition charAt :: "string \<Rightarrow> nat \<Rightarrow> char option" where
  "charAt s i = (if i < length s then Some (s ! i) else None)"

definition isWordBoundary :: "platform \<Rightarrow> string \<Rightarrow> nat \<Rightarrow> bool" where
  "isWordBoundary P target index =
     (if index = 0 then True
      else
        let prev = charAt target (index - 1); curr = charAt target index in
        if prev = Some CHR ''_'' \<or> prev = Some CHR ''-'' then True
        else (case (prev, curr) of
                (Some p, Some c) \<Rightarrow>
                  [p] = toLowerCase P [p] \<and> [c] = toUpperCase P [c] \<and> [c] \<noteq> toLowerCase P [c]
              | _ \<Rightarrow> False))"

text \<open>
  The \<open>for (let ti = 0; ti < t.length && qi < q.length; ti++)\<close> loop with its three
  variables \<open>qi\<close>, \<open>lastMatchIndex\<close> and \<open>score\<close>; it returns the final \<open>qi\<close> and
  \<open>score\<close>.
\<close>

function fuzzyLoop ::
  "platform \<Rightarrow> string \<Rightarrow> string \<Rightarrow> string \<Rightarrow> nat \<Rightarrow> nat \<Rightarrow> int \<Rightarrow> rat \<Rightarrow> nat \<times> rat" where
  "fuzzyLoop P target q t ti qi lastMatchIndex score =
     (if ti < length t \<and> qi < length q then
        (if t ! ti = q ! qi then
           let score1 = (if qi = 0 \<and> ti = 0 then score + 5 else score);
               score2 = (if ti > 0 \<and> isWordBoundary P target ti then score1 + 2 else score1);
               score3 = (if lastMatchIndex = int ti - 1 then score2 + 3
                         else if lastMatchIndex \<ge> 0
                         then score2 - of_int (int ti - lastMatchIndex - 1) * (1 / 2)
                         else score2);
               score4 = score3 + 1
           in fuzzyLoop P target q t (ti + 1) (qi + 1) (int ti) score4
         else fuzzyLoop P target q t (ti + 1) qi lastMatchIndex score)
      else (qi, score))"
  by pat_completeness auto
termination
  by (relation "measure (\<lambda>(P, target, q, t, ti, qi, l, s). length t - ti)") auto

declare fuzzyLoop.simps [simp del]

definition fuzzyScore :: "platform \<Rightarrow> string \<Rightarrow> string \<Rightarrow> rat" where
  "fuzzyScore P query target =
     (if query = [] \<or> target = [] then 0
      else
        let q = toLowerCase P query; t = toLowerCase P target;
            (qi, score) = fuzzyLoop P target q t 0 0 (- 1) 0
        in if qi < length q then 0 else score)"

subsection \<open>The scoring function as the specification words it\<close>







section \<open>Tool filter (util/glob.ts)\<close>

definition regexSpecial :: string where
  "regexSpecial = ''.+^${}()|[]'' @ [CHR 0x5C]"

text \<open>\<open>pattern.replace(/[.+^${}()|[\]\\]/g, "\\$&")\<close>\<close>

definition escapeRegex :: "string \<Rightarrow> string" where
  "escapeRegex pattern =
     concat (map (\<lambda>c. if c \<in> set regexSpecial then [CHR 0x5C, c] else [c]) pattern)"

definition globRegexSource :: "string \<Rightarrow> string" where
  "globRegexSource pattern =
     ''^'' @ concat (map (\<lambda>c. if c = CHR ''*'' then ''.*'' else [c]) (escapeRegex pattern)) @ ''$''"

text \<open>
  \<open>new RegExp(...)\<close> throws when the source is no regular expression; the escaping above
  leaves \<open>?\<close> as it is, so a pattern can give such a source.
\<close>

definition matchesGlob :: "platform \<Rightarrow> string \<Rightarrow> string \<Rightarrow> error + bool" where
  "matchesGlob P name pattern = regexTest P (globRegexSource pattern) name"

text \<open>\<open>patterns.some(...)\<close>: it stops at the first pattern that matches, or that throws.\<close>

fun matchesAnyGlob :: "platform \<Rightarrow> string \<Rightarrow> string list \<Rightarrow> error + bool" where
  "matchesAnyGlob P name [] = Inr False"
| "matchesAnyGlob P name (pattern # rest) =
     (case matchesGlob P name pattern of
        Inl err \<Rightarrow> Inl err
      | Inr True \<Rightarrow> Inr True
      | Inr False \<Rightarrow> matchesAnyGlob P name rest)"

text \<open>\<open>xs.filter(p)\<close> with a predicate that can throw.\<close>

fun filterE :: "('a \<Rightarrow> error + bool) \<Rightarrow> 'a list \<Rightarrow> error + 'a list" where
  "filterE p [] = Inr []"
| "filterE p (x # xs) =
     (case p x of
        Inl err \<Rightarrow> Inl err
      | Inr keep \<Rightarrow>
          (case filterE p xs of
             Inl err \<Rightarrow> Inl err
           | Inr rest \<Rightarrow> Inr (if keep then x # rest else rest)))"

definition notE :: "error + bool \<Rightarrow> error + bool" where
  "notE r = (case r of Inl err \<Rightarrow> Inl err | Inr b \<Rightarrow> Inr (\<not> b))"

record ToolFilterConfig =
  allowed :: "string list option"
  blocked :: "string list option"

record ToolInfo =
  ti_name :: string
  ti_description :: "string option"
  ti_inputSchema :: jobject

definition filterTools ::
  "platform \<Rightarrow> ToolInfo list \<Rightarrow> ToolFilterConfig option \<Rightarrow> error + ToolInfo list" where
  "filterTools P tools config =
     (case config of
        None \<Rightarrow> Inr tools
      | Some cfg \<Rightarrow>
          (case (case allowed cfg of
                   Some a \<Rightarrow>
                     if length a > 0
                     then filterE (\<lambda>t. matchesAnyGlob P (ti_name t) a) tools
                     else Inr tools
                 | None \<Rightarrow> Inr tools) of
             Inl err \<Rightarrow> Inl err
           | Inr result \<Rightarrow>
               (case blocked cfg of
                  Some b \<Rightarrow>
                    if length b > 0
                    then filterE (\<lambda>t. notE (matchesAnyGlob P (ti_name t) b)) result
                    else Inr result
                | None \<Rightarrow> Inr result)))"

section \<open>Results of tool calls (multiplexer/types.ts)\<close>

record ContentItem =
  c_type :: string
  c_text :: "string option"
  c_rest :: jobject

record CallToolResult =
  content :: "ContentItem list"
  isError :: "bool option"

definition textContent :: "string \<Rightarrow> ContentItem" where
  "textContent s = \<lparr>c_type = ''text'', c_text = Some s, c_rest = []\<rparr>"

section \<open>Toolset manager (multiplexer/toolset-manager.ts)\<close>

record ToolsetConfig =
  ts_servers :: "string list"
  ts_description :: "string option"

text \<open>
  \<open>toolsets\<close> is the configured object, its entries in the order in which
  \<open>Object.entries\<close> gives them.
\<close>

record ToolsetManager =
  toolsets :: "(string \<times> ToolsetConfig) list"
  loadedToolsets :: "string set"
  serverToolCountFn :: "string \<Rightarrow> nat"

definition newToolsetManager ::
  "(string \<times> ToolsetConfig) list \<Rightarrow> (string \<Rightarrow> nat) \<Rightarrow> ToolsetManager" where
  "newToolsetManager ts fn = \<lparr>toolsets = ts, loadedToolsets = {}, serverToolCountFn = fn\<rparr>"

text \<open>The \<open>for (const [name, ts] of Object.entries(this.toolsets))\<close> loop of \<open>isServerVisible\<close>.\<close>

fun loadedContaining :: "string set \<Rightarrow> string \<Rightarrow> (string \<times> ToolsetConfig) list \<Rightarrow> bool" where
  "loadedContaining loaded serverName [] = False"
| "loadedContaining loaded serverName ((name, ts) # rest) =
     (if serverName \<in> set (ts_servers ts) \<and> name \<in> loaded then True
      else loadedContaining loaded serverName rest)"

definition isServerVisible :: "ToolsetManager \<Rightarrow> string \<Rightarrow> bool" where
  "isServerVisible tm serverName =
     (let belongsToToolset =
            list_ex (\<lambda>ts. serverName \<in> set (ts_servers ts)) (map snd (toolsets tm))
      in if \<not> belongsToToolset then True
         else loadedContaining (loadedToolsets tm) serverName (toolsets tm))"

record LoadResult =
  lr_loaded :: "string list"
  lr_toolCount :: nat

definition toolCountOf :: "ToolsetManager \<Rightarrow> string list \<Rightarrow> nat" where
  "toolCountOf tm srvs = foldl (\<lambda>sum server. sum + serverToolCountFn tm server) 0 srvs"

text \<open>
  \<open>this.toolsets[name]\<close> of an inherited property is a function or an object without
  \<open>servers\<close>: the name is added to the loaded set, and evaluating
  \<open>toolset.servers.join\<close> for the log line then throws.
\<close>

definition undefinedJoin :: error where
  "undefinedJoin = TypeError ''Cannot read properties of undefined (reading 'join')''"

definition loadToolset :: "ToolsetManager \<Rightarrow> string \<Rightarrow> (error + LoadResult) \<times> ToolsetManager" where
  "loadToolset tm name =
     (case getProperty (toolsets tm) name of
        Missing \<Rightarrow> (Inl (Error (''Unknown toolset: '' @ name)), tm)
      | Inherited \<Rightarrow>
          (Inl undefinedJoin, tm\<lparr>loadedToolsets := insert name (loadedToolsets tm)\<rparr>)
      | Own toolset \<Rightarrow>
          let tm' = tm\<lparr>loadedToolsets := insert name (loadedToolsets tm)\<rparr>;
              toolCount = toolCountOf tm' (ts_servers toolset)
          in (Inr \<lparr>lr_loaded = ts_servers toolset, lr_toolCount = toolCount\<rparr>, tm'))"

definition unloadToolset :: "ToolsetManager \<Rightarrow> string \<Rightarrow> (error + unit) \<times> ToolsetManager" where
  "unloadToolset tm name =
     (case getProperty (toolsets tm) name of
        Missing \<Rightarrow> (Inl (Error (''Unknown toolset: '' @ name)), tm)
      | _ \<Rightarrow> (Inr (), tm\<lparr>loadedToolsets := loadedToolsets tm - {name}\<rparr>))"

record ToolsetInfo =
  info_name :: string
  info_description :: "string option"
  info_loaded :: bool
  info_servers :: "string list"
  info_toolCount :: nat

definition listToolsets :: "ToolsetManager \<Rightarrow> ToolsetInfo list" where
  "listToolsets tm =
     map (\<lambda>(name, ts).
            \<lparr>info_name = name,
             info_description = ts_description ts,
             info_loaded = (name \<in> loadedToolsets tm),
             info_servers = ts_servers ts,
             info_toolCount = toolCountOf tm (ts_servers ts)\<rparr>)
         (toolsets tm)"

text \<open>A \<open>ToolsetInfo\<close> as the value that \<open>JSON.stringify\<close> sees: an undefined description is no property.\<close>

definition toolsetInfoJson :: "ToolsetInfo \<Rightarrow> json" where
  "toolsetInfoJson i =
     JObj ([(''name'', JStr (info_name i))]
           @ (case info_description i of None \<Rightarrow> [] | Some d \<Rightarrow> [(''description'', JStr d)])
           @ [(''loaded'', JBool (info_loaded i)),
              (''servers'', JArr (map JStr (info_servers i))),
              (''toolCount'', JNum (of_nat (info_toolCount i)))])"

definition getMetaTools :: "ToolInfo list" where
  "getMetaTools =
     [\<lparr>ti_name = ''spike__list_toolsets'',
       ti_description = Some ''List available toolsets and their status'',
       ti_inputSchema = [(''type'', JStr ''object''), (''properties'', JObj [])]\<rparr>,
      \<lparr>ti_name = ''spike__load_toolset'',
       ti_description = Some ''Load a toolset to make its tools available'',
       ti_inputSchema =
         [(''type'', JStr ''object''),
          (''properties'',
             JObj [(''name'', JObj [(''type'', JStr ''string''),
                                    (''description'', JStr ''Name of the toolset to load'')])]),
          (''required'', JArr [JStr ''name''])]\<rparr>,
      \<lparr>ti_name = ''spike__unload_toolset'',
       ti_description = Some
         ''Unload a previously loaded toolset, removing its tools from the active context to save context window space'',
       ti_inputSchema =
         [(''type'', JStr ''object''),
          (''properties'',
             JObj [(''name'', JObj [(''type'', JStr ''string''),
                                    (''description'', JStr ''Name of the toolset to unload'')])]),
          (''required'', JArr [JStr ''name''])]\<rparr>]"

definition isMetaTool :: "string \<Rightarrow> bool" where
  "isMetaTool toolName =
     (toolName = ''spike__list_toolsets''
      \<or> toolName = ''spike__load_toolset''
      \<or> toolName = ''spike__unload_toolset'')"

text \<open>\<open>typeof args.name === "string" ? args.name : ""\<close>\<close>

definition argName :: "jobject \<Rightarrow> string" where
  "argName args = (case map_of args ''name'' of Some (JStr s) \<Rightarrow> s | _ \<Rightarrow> [])"

definition errorResult :: "string \<Rightarrow> CallToolResult" where
  "errorResult s = \<lparr>content = [textContent s], isError = Some True\<rparr>"

definition textResult :: "string \<Rightarrow> CallToolResult" where
  "textResult s = \<lparr>content = [textContent s], isError = None\<rparr>"

text \<open>
  \<open>err instanceof Error ? err.message : String(err)\<close>: a \<open>TypeError\<close> and a
  \<open>SyntaxError\<close> are \<open>Error\<close>s.
\<close>

fun errorMessage :: "error \<Rightarrow> string" where
  "errorMessage (Error m) = m"
| "errorMessage (TypeError m) = m"
| "errorMessage (SyntaxError m) = m"

definition handleMetaTool ::
  "platform \<Rightarrow> ToolsetManager \<Rightarrow> string \<Rightarrow> jobject \<Rightarrow> (error + CallToolResult) \<times> ToolsetManager" where
  "handleMetaTool P tm toolName args =
     (if toolName = ''spike__list_toolsets'' then
        (Inr (textResult (jsonStringifyPretty P (JArr (map toolsetInfoJson (listToolsets tm))))), tm)
      else if toolName = ''spike__load_toolset'' then
        (let name = argName args in
         if name = [] then (Inr (errorResult ''Error: name is required''), tm)
         else (case loadToolset tm name of
                 (Inr result, tm') \<Rightarrow>
                   (Inr (textResult
                      (''Loaded toolset \"'' @ name @ ''\": '' @ join '', '' (lr_loaded result)
                       @ '' ('' @ show_nat (lr_toolCount result) @ '' tools now available)'')), tm')
               | (Inl err, tm') \<Rightarrow> (Inr (errorResult (''Error: '' @ errorMessage err)), tm')))
      else if toolName = ''spike__unload_toolset'' then
        (let name = argName args in
         if name = [] then (Inr (errorResult ''Error: name is required''), tm)
         else (case getProperty (toolsets tm) name of
                 Missing \<Rightarrow> (Inr (errorResult (''Error: Unknown toolset: '' @ name)), tm)
               | found \<Rightarrow>
                   if name \<notin> loadedToolsets tm
                   then (Inr (errorResult (''Toolset \"'' @ name @ ''\" is not currently loaded'')), tm)
                   else
                     (case unloadToolset tm name of
                        (Inl err, tm') \<Rightarrow> (Inl err, tm')
                      | (Inr u, tm') \<Rightarrow>
                          (case found of
                             Own ts \<Rightarrow>
                               (Inr (textResult
                                  (''Unloaded toolset \"'' @ name @ ''\": servers ''
                                   @ join '', '' (ts_servers ts) @ '' are now hidden'')), tm')
                           | _ \<Rightarrow> (Inl undefinedJoin, tm')))))
      else (Inr (errorResult (''Unknown meta-tool: '' @ toolName)), tm))"

section \<open>Upstream clients and the server manager (multiplexer/server-manager.ts)\<close>

text \<open>
  An upstream client holds its name, the tools it listed on connect, its \<open>connected\<close>
  flag and the protocol client; what the protocol client's \<open>callTool\<close> answers (a result,
  or a rejection) is the function \<open>uc_client\<close>.
\<close>

record UpstreamClient =
  uc_name :: string
  uc_tools :: "ToolInfo list"
  uc_connected :: bool
  uc_client :: "string \<Rightarrow> jobject \<Rightarrow> error + CallToolResult"

definition UpstreamClient_callTool ::
  "UpstreamClient \<Rightarrow> string \<Rightarrow> jobject \<Rightarrow> error + CallToolResult" where
  "UpstreamClient_callTool client toolName args =
     (if \<not> uc_connected client
      then Inl (Error (''Upstream '' @ uc_name client @ '' is not connected''))
      else uc_client client toolName args)"

text \<open>
  A server's configuration (config/types.ts), the stdio and the HTTP variant in one
  record; the manager itself reads the \<open>tools\<close> filter only.
\<close>

record ServerConfig =
  sc_type :: "string option"
  sc_command :: "string option"
  sc_args :: "string list option"
  sc_url :: "string option"
  sc_env :: "(string \<times> string) list option"
  sc_tools :: "ToolFilterConfig option"

record NamespacedTool =
  namespacedName :: string
  originalName :: string
  serverName :: string
  description :: "string option"
  inputSchema :: jobject

text \<open>
  The two \<open>Map\<close>s are association lists in insertion order; \<open>upstreams.get(name)\<close> is
  \<^const>\<open>map_of\<close>, \<open>[...upstreams.keys()]\<close> the list of first components.
\<close>

record ServerManager =
  upstreams :: "(string \<times> UpstreamClient) list"
  serverConfigs :: "(string \<times> ServerConfig) list"
  separator :: string
  noPrefix :: bool
  toolsetManager :: "ToolsetManager option"

definition getFilteredTools ::
  "platform \<Rightarrow> ServerManager \<Rightarrow> string \<Rightarrow> UpstreamClient \<Rightarrow> error + ToolInfo list" where
  "getFilteredTools P m name client =
     (let config = map_of (serverConfigs m) name;
          toolFilter = (case config of None \<Rightarrow> None | Some c \<Rightarrow> sc_tools c)
      in filterTools P (uc_tools client) toolFilter)"

text \<open>\<open>this._toolsetManager && !this._toolsetManager.isServerVisible(serverName)\<close>\<close>

definition hiddenByToolset :: "ServerManager \<Rightarrow> string \<Rightarrow> bool" where
  "hiddenByToolset m name =
     (case toolsetManager m of
        None \<Rightarrow> False
      | Some tm \<Rightarrow> \<not> isServerVisible tm name)"

definition toNamespacedTool :: "ServerManager \<Rightarrow> string \<Rightarrow> ToolInfo \<Rightarrow> NamespacedTool" where
  "toNamespacedTool m name tool =
     \<lparr>namespacedName =
        (if noPrefix m then ti_name tool else namespaceTool name (ti_name tool) (separator m)),
      originalName = ti_name tool,
      serverName = name,
      description = ti_description tool,
      inputSchema = ti_inputSchema tool\<rparr>"

definition metaToolEntry :: "ToolInfo \<Rightarrow> NamespacedTool" where
  "metaToolEntry metaTool =
     \<lparr>namespacedName = ti_name metaTool,
      originalName = ti_name metaTool,
      serverName = ''spike'',
      description = ti_description metaTool,
      inputSchema = ti_inputSchema metaTool\<rparr>"

text \<open>The first loop of \<open>getAllTools\<close>, pushing onto \<open>tools\<close>.\<close>

fun upstreamTools ::
  "platform \<Rightarrow> ServerManager \<Rightarrow> (string \<times> UpstreamClient) list \<Rightarrow> NamespacedTool list
   \<Rightarrow> error + NamespacedTool list" where
  "upstreamTools P m [] tools = Inr tools"
| "upstreamTools P m ((name, client) # rest) tools =
     (if hiddenByToolset m name then upstreamTools P m rest tools
      else
        case getFilteredTools P m name client of
          Inl err \<Rightarrow> Inl err
        | Inr filteredTools \<Rightarrow>
            upstreamTools P m rest (tools @ map (toNamespacedTool m name) filteredTools))"

definition getAllTools :: "platform \<Rightarrow> ServerManager \<Rightarrow> error + NamespacedTool list" where
  "getAllTools P m =
     (case upstreamTools P m (upstreams m) [] of
        Inl err \<Rightarrow> Inl err
      | Inr tools \<Rightarrow>
          (case toolsetManager m of
             None \<Rightarrow> Inr tools
           | Some tm \<Rightarrow> Inr (tools @ map metaToolEntry getMetaTools)))"

text \<open>The names under which the specification lists the failures of \<open>callTool\<close>.\<close>

definition CannotResolve :: "string \<Rightarrow> error" where
  "CannotResolve wireName = Error (''Cannot resolve tool: '' @ wireName)"

definition ServerNotConnected :: "string \<Rightarrow> error" where
  "ServerNotConnected name = Error (''Server not connected: '' @ name)"

definition ToolsetNotLoaded :: "string \<Rightarrow> error" where
  "ToolsetNotLoaded wireName =
     Error (''Tool not found: '' @ wireName @ '' (toolset not loaded)'')"

definition ToolNotFound :: "string \<Rightarrow> error" where
  "ToolNotFound wireName = Error (''Tool not found: '' @ wireName)"

text \<open>The loop of \<open>callTool\<close> in \<open>noPrefix\<close> mode.\<close>

fun callToolNoPrefix ::
  "platform \<Rightarrow> ServerManager \<Rightarrow> (string \<times> UpstreamClient) list \<Rightarrow> string \<Rightarrow> jobject
   \<Rightarrow> error + CallToolResult" where
  "callToolNoPrefix P m [] wireName args = Inl (ToolNotFound wireName)"
| "callToolNoPrefix P m ((name, client) # rest) wireName args =
     (if hiddenByToolset m name then callToolNoPrefix P m rest wireName args
      else
        case getFilteredTools P m name client of
          Inl err \<Rightarrow> Inl err
        | Inr filteredTools \<Rightarrow>
            let hasTool = list_ex (\<lambda>t. ti_name t = wireName) filteredTools
            in if hasTool then UpstreamClient_callTool client wireName args
               else callToolNoPrefix P m rest wireName args)"

text \<open>
  \<open>callTool(namespacedName, args)\<close>, its first parameter written \<open>wireName\<close> here,
  returns the result or the error thrown, and the manager: a meta-tool
  changes the loaded set of the toolset manager.
\<close>

definition callTool ::
  "platform \<Rightarrow> ServerManager \<Rightarrow> string \<Rightarrow> jobject \<Rightarrow> (error + CallToolResult) \<times> ServerManager" where
  "callTool P m wireName args =
     (case (if isMetaTool wireName then toolsetManager m else None) of
        Some tm \<Rightarrow>
          (case handleMetaTool P tm wireName args of
             (r, tm') \<Rightarrow> (r, m\<lparr>toolsetManager := Some tm'\<rparr>))
      | None \<Rightarrow>
          if noPrefix m then (callToolNoPrefix P m (upstreams m) wireName args, m)
          else
            (case parseNamespacedTool wireName (map fst (upstreams m)) (separator m) of
               None \<Rightarrow> (Inl (CannotResolve wireName), m)
             | Some parsed \<Rightarrow>
                 (case map_of (upstreams m) (pt_serverName parsed) of
                    None \<Rightarrow> (Inl (ServerNotConnected (pt_serverName parsed)), m)
                  | Some client \<Rightarrow>
                      if hiddenByToolset m (pt_serverName parsed)
                      then (Inl (ToolsetNotLoaded wireName), m)
                      else
                        (case getFilteredTools P m (pt_serverName parsed) client of
                           Inl err \<Rightarrow> (Inl err, m)
                         | Inr filteredTools \<Rightarrow>
                             if \<not> list_ex (\<lambda>t. ti_name t = pt_toolName parsed) filteredTools
                             then (Inl (ToolNotFound wireName), m)
                             else (UpstreamClient_callTool client (pt_toolName parsed) args,
                                   m)))))"

definition getServerNames :: "ServerManager \<Rightarrow> string list" where
  "getServerNames m = map fst (upstreams m)"

text \<open>\<open>map.delete(key)\<close> and \<open>map.set(key, value)\<close> on a \<open>Map\<close> in insertion order.\<close>

definition map_delete :: "'k \<Rightarrow> ('k \<times> 'v) list \<Rightarrow> ('k \<times> 'v) list" where
  "map_delete key entries = filter (\<lambda>(k, v). k \<noteq> key) entries"

fun map_set :: "('k \<times> 'v) list \<Rightarrow> 'k \<Rightarrow> 'v \<Rightarrow> ('k \<times> 'v) list" where
  "map_set [] key v = [(key, v)]"
| "map_set ((k, w) # rest) key v =
     (if k = key then (k, v) # rest else (k, w) # map_set rest key v)"

text \<open>
  \<open>reconnect(serverName, config)\<close>. What \<open>new UpstreamClient(serverName, config)\<close>
  followed by \<open>connect()\<close> gives (the connected client with the tools it listed, or the
  error that \<open>connect\<close> throws) is the parameter \<open>connect\<close>. Closing the existing client
  never throws: \<open>UpstreamClient.close\<close> catches what the protocol client throws. The
  result is the error thrown, if any, and the manager afterwards.
\<close>

definition reconnect ::
  "(string \<Rightarrow> ServerConfig \<Rightarrow> error + UpstreamClient) \<Rightarrow> ServerManager \<Rightarrow> string
   \<Rightarrow> ServerConfig \<Rightarrow> (error + unit) \<times> ServerManager" where
  "reconnect connect m name config =
     (let m1 = (case map_of (upstreams m) name of
                  Some existing \<Rightarrow> m\<lparr>upstreams := map_delete name (upstreams m)\<rparr>
                | None \<Rightarrow> m)
      in case connect name config of
           Inl err \<Rightarrow> (Inl err, m1)
         | Inr client \<Rightarrow>
             (Inr (),
              m1\<lparr>upstreams := map_set (upstreams m1) name client,
                 serverConfigs := map_set (serverConfigs m1) name config\<rparr>))"

subsection \<open>The owner of a wire name as the specification words it\<close>

text \<open>
  The owning upstream of a wire name is a registered upstream whose name followed by the
  separator is a prefix of the wire name, and the longest such.
\<close>

definition ref_isPrefixOwner :: "string \<Rightarrow> string \<Rightarrow> string \<Rightarrow> bool" where
  "ref_isPrefixOwner wireName sep u = startsWith wireName (u @ sep)"

definition ref_owner :: "string \<Rightarrow> string list \<Rightarrow> string \<Rightarrow> string \<Rightarrow> bool" where
  "ref_owner wireName names sep u =
     (u \<in> set names \<and> ref_isPrefixOwner wireName sep u
      \<and> list_all (\<lambda>v. ref_isPrefixOwner wireName sep v \<longrightarrow> length v \<le> length u) names)"

subsection \<open>Sequences of toolset operations, and visibility as the specification words it\<close>

datatype toolsetOp = LoadToolset string | UnloadToolset string

text \<open>One operation on the toolset manager; a failing one is caught by its caller.\<close>

fun applyOp :: "ToolsetManager \<Rightarrow> toolsetOp \<Rightarrow> ToolsetManager" where
  "applyOp tm (LoadToolset name) = snd (loadToolset tm name)"
| "applyOp tm (UnloadToolset name) = snd (unloadToolset tm name)"

definition runOps :: "ToolsetManager \<Rightarrow> toolsetOp list \<Rightarrow> ToolsetManager" where
  "runOps tm ops = foldl applyOp tm ops"

text \<open>
  A name is currently loaded after a sequence of operations when the last operation on
  that name is a load and the name is not refused as unknown.
\<close>

definition ref_currentlyLoaded ::
  "(string \<times> ToolsetConfig) list \<Rightarrow> toolsetOp list \<Rightarrow> string \<Rightarrow> bool" where
  "ref_currentlyLoaded cfg ops name =
     (case rev (filter (\<lambda>op. op = LoadToolset name \<or> op = UnloadToolset name) ops) of
        [] \<Rightarrow> False
      | op # earlier \<Rightarrow> op = LoadToolset name \<and> getProperty cfg name \<noteq> Missing)"

text \<open>
  A server is visible iff it appears in no toolset's \<open>servers\<close> list, or at least one
  toolset whose \<open>servers\<close> list contains it is currently loaded.
\<close>

definition ref_visible ::
  "(string \<times> ToolsetConfig) list \<Rightarrow> toolsetOp list \<Rightarrow> string \<Rightarrow> bool" where
  "ref_visible cfg ops server =
     (\<not> list_ex (\<lambda>(name, ts). server \<in> set (ts_servers ts)) cfg
      \<or> list_ex (\<lambda>(name, ts). server \<in> set (ts_servers ts) \<and> ref_currentlyLoaded cfg ops name) cfg)"

section \<open>Objects of the platform\<close>

text \<open>
  An integer-like key is the canonical decimal numeral of a number below \<open>2^32 - 1\<close>.
\<close>

definition indexValue :: "string \<Rightarrow> nat" where
  "indexValue s = foldl (\<lambda>acc c. acc * 10 + (of_char c - 48)) 0 s"

definition isArrayIndex :: "string \<Rightarrow> bool" where
  "isArrayIndex s =
     (s \<noteq> [] \<and> list_all (\<lambda>c. c \<in> set ''0123456789'') s
      \<and> (s = ''0'' \<or> hd s \<noteq> CHR ''0'')
      \<and> indexValue s < 4294967295)"

text \<open>
  \<open>obj[key] = value\<close>: an existing own property keeps its place; a new integer-like key
  goes to its place among the integer-like keys, any other new key goes last.
  \<open>{ ...a, ...b }\<close> assigns the properties of \<open>b\<close> in order over a copy of \<open>a\<close>.
\<close>

fun insertIndexKey :: "(string \<times> 'v) list \<Rightarrow> string \<Rightarrow> 'v \<Rightarrow> (string \<times> 'v) list" where
  "insertIndexKey [] key v = [(key, v)]"
| "insertIndexKey ((k, w) # rest) key v =
     (if isArrayIndex k \<and> indexValue k < indexValue key
      then (k, w) # insertIndexKey rest key v
      else (key, v) # (k, w) # rest)"

definition obj_set :: "(string \<times> 'v) list \<Rightarrow> string \<Rightarrow> 'v \<Rightarrow> (string \<times> 'v) list" where
  "obj_set obj key v =
     (if map_of obj key \<noteq> None then map (\<lambda>(k, w). if k = key then (k, v) else (k, w)) obj
      else if isArrayIndex key then insertIndexKey obj key v
      else obj @ [(key, v)])"

definition obj_assign :: "(string \<times> 'v) list \<Rightarrow> (string \<times> 'v) list \<Rightarrow> (string \<times> 'v) list" where
  "obj_assign a b = foldl (\<lambda>acc (k, v). obj_set acc k v) a b"

text \<open>\<open>key in obj\<close>: own or inherited.\<close>

definition hasProperty :: "(string \<times> 'a) list \<Rightarrow> string \<Rightarrow> bool" where
  "hasProperty obj key = (getProperty obj key \<noteq> Missing)"

text \<open>Truthiness of a value.\<close>

fun truthy :: "json \<Rightarrow> bool" where
  "truthy JNull = False"
| "truthy (JBool b) = b"
| "truthy (JNum n) = (n \<noteq> 0)"
| "truthy (JStr s) = (s \<noteq> [])"
| "truthy (JArr xs) = True"
| "truthy (JObj fs) = True"

text \<open>
  The enumerable own properties that \<open>Object.entries\<close> and object spread see: those of
  an object, the indexed elements of an array, the indexed characters of a string.
\<close>

fun ownEntries :: "json \<Rightarrow> (string \<times> json) list" where
  "ownEntries (JObj fs) = fs"
| "ownEntries (JArr xs) = zip (map show_nat [0..<length xs]) xs"
| "ownEntries (JStr s) = zip (map show_nat [0..<length s]) (map (\<lambda>c. JStr [c]) s)"
| "ownEntries _ = []"

section \<open>The bridge to the chat client (chat/tool-adapter.ts)\<close>

definition normalizeInputSchema :: "jobject \<Rightarrow> jobject" where
  "normalizeInputSchema schema =
     (let normalized = schema in
      if \<not> (case map_of normalized ''type'' of None \<Rightarrow> False | Some v \<Rightarrow> truthy v)
      then obj_set normalized ''type'' (JStr ''object'')
      else normalized)"

record Tool =
  tool_name :: string
  tool_description :: string
  input_schema :: jobject

definition mcpToolsToClaude :: "NamespacedTool list \<Rightarrow> Tool list" where
  "mcpToolsToClaude tools =
     map (\<lambda>tool.
            \<lparr>tool_name = namespacedName tool,
             tool_description = (case description tool of None \<Rightarrow> [] | Some d \<Rightarrow> d),
             input_schema = normalizeInputSchema (inputSchema tool)\<rparr>)
         tools"

text \<open>
  \<open>inputSchema.properties\<close>, when it is truthy: the value itself, whatever its shape.
\<close>

definition propertiesOf :: "jobject \<Rightarrow> json option" where
  "propertiesOf schema =
     (case map_of schema ''properties'' of
        None \<Rightarrow> None
      | Some v \<Rightarrow> if truthy v then Some v else None)"

text \<open>
  \<open>"default" in prop ? prop.default : (nothing)\<close>: the \<open>in\<close> operator throws a
  \<open>TypeError\<close> when \<open>prop\<close> is not an object.
\<close>

definition inOperatorTypeError :: error where
  "inOperatorTypeError = TypeError ''Cannot use 'in' operator to search for 'default' in a primitive''"

fun defaultOf :: "json \<Rightarrow> error + json option" where
  "defaultOf (JObj fs) = Inr (map_of fs ''default'')"
| "defaultOf (JArr xs) = Inr None"
| "defaultOf _ = Inl inOperatorTypeError"

text \<open>The loop of \<open>extractDefaults\<close> over \<open>Object.entries(props)\<close>.\<close>

fun defaultsLoop :: "(string \<times> json) list \<Rightarrow> jobject \<Rightarrow> error + jobject" where
  "defaultsLoop [] defaults = Inr defaults"
| "defaultsLoop ((key, prop) # rest) defaults =
     (case defaultOf prop of
        Inl err \<Rightarrow> Inl err
      | Inr (Some d) \<Rightarrow> defaultsLoop rest (obj_set defaults key d)
      | Inr None \<Rightarrow> defaultsLoop rest defaults)"

definition extractDefaults :: "jobject \<Rightarrow> error + jobject" where
  "extractDefaults schema =
     (case propertiesOf schema of
        None \<Rightarrow> Inr []
      | Some props \<Rightarrow> defaultsLoop (ownEntries props) [])"

text \<open>
  The source reads \<open>required\<close> through a cast to a list of strings, and the
  \<open>description\<close> and \<open>type\<close> of a property through casts to strings. These casts are taken
  at their word: a non-string entry of \<open>required\<close> is left out, and a \<open>description\<close> or
  \<open>type\<close> that is no string is read as absent.
\<close>

fun stringsOf :: "json list \<Rightarrow> string list" where
  "stringsOf [] = []"
| "stringsOf (JStr s # rest) = s # stringsOf rest"
| "stringsOf (_ # rest) = stringsOf rest"

text \<open>\<open>(schema.required as string[] | undefined) ?? []\<close>\<close>

definition schemaRequired :: "jobject \<Rightarrow> string list" where
  "schemaRequired schema =
     (case map_of schema ''required'' of
        Some (JArr xs) \<Rightarrow> stringsOf xs
      | _ \<Rightarrow> [])"

record ParamInfo =
  pi_name :: string
  pi_description :: string
  pi_type :: string

text \<open>\<open>props[name] ?? {}\<close>\<close>

definition propertyNode :: "json \<Rightarrow> string \<Rightarrow> json" where
  "propertyNode props name =
     (case map_of (ownEntries props) name of
        None \<Rightarrow> JObj []
      | Some JNull \<Rightarrow> JObj []
      | Some p \<Rightarrow> p)"

text \<open>\<open>(prop.description as string) ?? ""\<close> and \<open>(prop.type as string) ?? "string"\<close>\<close>

fun stringField :: "json \<Rightarrow> string \<Rightarrow> string \<Rightarrow> string" where
  "stringField (JObj fs) key dflt = (case map_of fs key of Some (JStr s) \<Rightarrow> s | _ \<Rightarrow> dflt)"
| "stringField _ key dflt = dflt"

definition getRequiredParams :: "jobject \<Rightarrow> error + ParamInfo list" where
  "getRequiredParams schema =
     (let required = schemaRequired schema in
      case propertiesOf schema of
        None \<Rightarrow> Inr []
      | Some props \<Rightarrow>
          (case extractDefaults schema of
             Inl err \<Rightarrow> Inl err
           | Inr defaults \<Rightarrow>
               Inr (map (\<lambda>name.
                           let prop = propertyNode props name in
                           \<lparr>pi_name = name,
                            pi_description = stringField prop ''description'' [],
                            pi_type = stringField prop ''type'' ''string''\<rparr>)
                        (filter (\<lambda>name. \<not> hasProperty defaults name) required))))"

record ToolCallOutcome =
  result :: string
  tc_isError :: bool

definition contentItemJson :: "ContentItem \<Rightarrow> json" where
  "contentItemJson c = JObj ((''type'', JStr (c_type c)) # c_rest c)"

text \<open>\<open>c.text ?? JSON.stringify(c)\<close>\<close>

definition contentText :: "platform \<Rightarrow> ContentItem \<Rightarrow> string" where
  "contentText P c = (case c_text c of Some t \<Rightarrow> t | None \<Rightarrow> jsonStringify P (contentItemJson c))"

definition executeToolCall ::
  "platform \<Rightarrow> ServerManager \<Rightarrow> string \<Rightarrow> jobject \<Rightarrow> ToolCallOutcome \<times> ServerManager" where
  "executeToolCall P manager name input =
     (case callTool P manager name input of
        (Inr callResult, manager') \<Rightarrow>
          (\<lparr>result = join [CHR 0x0A] (map (contentText P) (content callResult)),
            tc_isError = (case isError callResult of None \<Rightarrow> False | Some b \<Rightarrow> b)\<rparr>,
           manager')
      | (Inl err, manager') \<Rightarrow>
          (\<lparr>result = ''Tool error: '' @ errorMessage err, tc_isError = True\<rparr>, manager'))"

section \<open>The agent loop (chat/loop.ts)\<close>

datatype ContentBlock =
    TextBlock string
  | ToolUseBlock string string jobject
  | ToolResultBlock string string bool
  | OtherBlock json

datatype Role = User | Assistant

datatype MessageContent = Text string | Blocks "ContentBlock list"

record Message =
  role :: Role
  msg_content :: MessageContent

text \<open>
  Of the chat client the loop uses \<open>createStream(messages, tools)\<close> and drains the stream:
  \<open>createStream\<close> here gives the content blocks the drained stream delivered, or the
  error that \<open>finalMessage\<close> rejected with.
\<close>

record ChatClient =
  model :: string
  createStream :: "Message list \<Rightarrow> Tool list \<Rightarrow> error + ContentBlock list"

text \<open>
  What the loop does to the outside is kept in its result: the error it rejects with, if
  any, the message list, the manager, and for every call of \<open>createStream\<close> the tool
  list passed, together with the manager as it was at the moment of the call. The
  observer callbacks of the context are not modelled.
\<close>

record StreamCall =
  sc_manager :: ServerManager
  sc_messages :: "Message list"
  sc_tools :: "Tool list"

record LoopResult =
  loop_error :: "error option"
  loop_manager :: ServerManager
  loop_messages :: "Message list"
  loop_calls :: "StreamCall list"
  loop_reachedMaximum :: bool

fun isToolUse :: "ContentBlock \<Rightarrow> bool" where
  "isToolUse (ToolUseBlock i n inp) = True"
| "isToolUse _ = False"

text \<open>
  \<open>resolveServerName\<close>: the name it finds goes to the observer callbacks only, but it asks
  the manager for the catalog, which can throw.
\<close>

definition resolveServerName :: "platform \<Rightarrow> ServerManager \<Rightarrow> string \<Rightarrow> error + string" where
  "resolveServerName P manager toolName =
     (case getAllTools P manager of
        Inl err \<Rightarrow> Inl err
      | Inr allTools \<Rightarrow>
          Inr (case find (\<lambda>t. namespacedName t = toolName) allTools of
                 Some match \<Rightarrow> serverName match
               | None \<Rightarrow> ''unknown''))"

text \<open>The \<open>for (const toolUse of toolUseBlocks)\<close> loop, pushing onto \<open>toolResults\<close>.\<close>

fun runToolUses ::
  "platform \<Rightarrow> ServerManager \<Rightarrow> ContentBlock list \<Rightarrow> ContentBlock list
   \<Rightarrow> (error + ContentBlock list) \<times> ServerManager" where
  "runToolUses P manager [] toolResults = (Inr toolResults, manager)"
| "runToolUses P manager (ToolUseBlock i n inp # rest) toolResults =
     (case resolveServerName P manager n of
        Inl err \<Rightarrow> (Inl err, manager)
      | Inr server \<Rightarrow>
          (case executeToolCall P manager n inp of
             (out, manager') \<Rightarrow>
               runToolUses P manager' rest
                 (toolResults @ [ToolResultBlock i (result out) (tc_isError out)])))"
| "runToolUses P manager (_ # rest) toolResults = runToolUses P manager rest toolResults"

text \<open>
  The \<open>for (let turn = 0; turn < maxTurns; turn++)\<close> loop, by the number of turns left.
  \<open>tools\<close> is the constant computed before the loop.
\<close>

fun agentTurns ::
  "platform \<Rightarrow> ChatClient \<Rightarrow> Tool list \<Rightarrow> nat \<Rightarrow> ServerManager \<Rightarrow> Message list
   \<Rightarrow> StreamCall list \<Rightarrow> LoopResult" where
  "agentTurns P client tools 0 manager messages calls =
     \<lparr>loop_error = None, loop_manager = manager, loop_messages = messages,
      loop_calls = calls, loop_reachedMaximum = True\<rparr>"
| "agentTurns P client tools (Suc turnsLeft) manager messages calls =
     (let calls' = calls @ [\<lparr>sc_manager = manager, sc_messages = messages, sc_tools = tools\<rparr>]
      in case createStream client messages tools of
           Inl err \<Rightarrow>
             \<lparr>loop_error = Some err, loop_manager = manager, loop_messages = messages,
              loop_calls = calls', loop_reachedMaximum = False\<rparr>
         | Inr response \<Rightarrow>
             let messages1 = messages @ [\<lparr>role = Assistant, msg_content = Blocks response\<rparr>];
                 toolUseBlocks = filter isToolUse response
             in if length toolUseBlocks = 0
                then \<lparr>loop_error = None, loop_manager = manager, loop_messages = messages1,
                      loop_calls = calls', loop_reachedMaximum = False\<rparr>
                else
                  (case runToolUses P manager toolUseBlocks [] of
                     (Inl err, manager') \<Rightarrow>
                       \<lparr>loop_error = Some err, loop_manager = manager',
                        loop_messages = messages1, loop_calls = calls',
                        loop_reachedMaximum = False\<rparr>
                   | (Inr toolResults, manager') \<Rightarrow>
                       agentTurns P client tools turnsLeft manager'
                         (messages1 @ [\<lparr>role = User, msg_content = Blocks toolResults\<rparr>])
                         calls'))"

definition runAgentLoop ::
  "platform \<Rightarrow> ChatClient \<Rightarrow> ServerManager \<Rightarrow> Message list \<Rightarrow> nat option \<Rightarrow> MessageContent
   \<Rightarrow> LoopResult" where
  "runAgentLoop P client manager messages maxTurnsOpt userMessage =
     (let maxTurns = (case maxTurnsOpt of None \<Rightarrow> 20 | Some n \<Rightarrow> n) in
      case getAllTools P manager of
        Inl err \<Rightarrow>
          \<lparr>loop_error = Some err, loop_manager = manager, loop_messages = messages,
           loop_calls = [], loop_reachedMaximum = False\<rparr>
      | Inr allTools \<Rightarrow>
          let tools = mcpToolsToClaude allTools;
              messages0 = messages @ [\<lparr>role = User, msg_content = userMessage\<rparr>]
          in agentTurns P client tools maxTurns manager messages0 [])"

section \<open>Slash commands and the session state (chat/slash-commands.ts)\<close>

definition CONFIG_PREREQUISITES :: "(string \<times> string list) list" where
  "CONFIG_PREREQUISITES =
     [(''set_project_root'', [''run_tests'', ''list_tests'', ''analyze_coverage''])]"

text \<open>
  The two \<open>Map\<close>s of the session state are association lists in insertion order, its
  \<open>Set\<close> a set.
\<close>

record SessionState =
  created :: "(string \<times> string list) list"
  idsByKey :: "(string \<times> string list) list"
  configToolsCalled :: "string set"

definition newSessionState :: SessionState where
  "newSessionState = \<lparr>created = [], idsByKey = [], configToolsCalled = {}\<rparr>"

definition recordCreate :: "SessionState \<Rightarrow> string \<Rightarrow> string list \<Rightarrow> SessionState" where
  "recordCreate st prefix ids =
     (let existing = (case map_of (created st) prefix of Some e \<Rightarrow> e | None \<Rightarrow> [])
      in st\<lparr>created := map_set (created st) prefix (existing @ ids)\<rparr>)"

definition hasCreated :: "SessionState \<Rightarrow> string \<Rightarrow> bool" where
  "hasCreated st prefix =
     (case map_of (created st) prefix of Some ids \<Rightarrow> length ids > 0 | None \<Rightarrow> False)"

definition getCreatedIds :: "SessionState \<Rightarrow> string \<Rightarrow> string list" where
  "getCreatedIds st prefix = (case map_of (created st) prefix of Some ids \<Rightarrow> ids | None \<Rightarrow> [])"

definition pushId :: "SessionState \<Rightarrow> string \<Rightarrow> string \<Rightarrow> SessionState" where
  "pushId st key v =
     (let existing = (case map_of (idsByKey st) key of Some e \<Rightarrow> e | None \<Rightarrow> [])
      in st\<lparr>idsByKey := map_set (idsByKey st) key (existing @ [v])\<rparr>)"

text \<open>The body of the loop of \<open>recordIds\<close> over \<open>Object.entries(parsed)\<close>.\<close>

fun recordIdEntry :: "SessionState \<Rightarrow> string \<times> json \<Rightarrow> SessionState" where
  "recordIdEntry st (key, JStr v) =
     (let st1 = (if endsWith key ''_id'' then pushId st key v else st)
      in if key = ''id'' then pushId st1 ''id'' v else st1)"
| "recordIdEntry st (key, _) = st"

text \<open>\<open>typeof parsed === "object" && parsed !== null\<close>\<close>

fun isObjectValue :: "json \<Rightarrow> bool" where
  "isObjectValue (JObj fs) = True"
| "isObjectValue (JArr xs) = True"
| "isObjectValue _ = False"

definition recordIds :: "platform \<Rightarrow> SessionState \<Rightarrow> string \<Rightarrow> SessionState" where
  "recordIds P st res =
     (case jsonParse P res of
        None \<Rightarrow> st
      | Some parsed \<Rightarrow>
          if \<not> isObjectValue parsed then st
          else foldl recordIdEntry st (ownEntries parsed))"

definition getLatestId :: "SessionState \<Rightarrow> string \<Rightarrow> string option" where
  "getLatestId st paramName =
     (case map_of (idsByKey st) paramName of
        Some ids \<Rightarrow> if length ids > 0 then Some (last ids) else None
      | None \<Rightarrow> None)"

definition hasId :: "SessionState \<Rightarrow> string \<Rightarrow> bool" where
  "hasId st paramName =
     (case map_of (idsByKey st) paramName of Some ids \<Rightarrow> length ids > 0 | None \<Rightarrow> False)"

definition recordConfigCall :: "SessionState \<Rightarrow> string \<Rightarrow> SessionState" where
  "recordConfigCall st toolName = st\<lparr>configToolsCalled := insert toolName (configToolsCalled st)\<rparr>"

definition hasConfigBeenCalled :: "SessionState \<Rightarrow> string \<Rightarrow> bool" where
  "hasConfigBeenCalled st toolName = (toolName \<in> configToolsCalled st)"

subsection \<open>Parsing the input line\<close>

text \<open>\<open>s.trim()\<close> strips the white space and line terminators of the platform at both ends.\<close>

definition isWhiteSpace :: "char \<Rightarrow> bool" where
  "isWhiteSpace c = (of_char c \<in> {9, 10, 11, 12, 13, 32, 160 :: nat})"

definition trim :: "string \<Rightarrow> string" where
  "trim s = rev (dropWhile isWhiteSpace (rev (dropWhile isWhiteSpace s)))"

text \<open>\<open>s.indexOf(c)\<close>, with \<open>None\<close> for \<open>-1\<close>.\<close>

fun indexOf :: "string \<Rightarrow> char \<Rightarrow> nat option" where
  "indexOf [] c = None"
| "indexOf (x # xs) c = (if x = c then Some 0 else map_option Suc (indexOf xs c))"

record ParsedSlashInput =
  command :: string
  argsRaw :: string

definition parseSlashInput :: "string \<Rightarrow> ParsedSlashInput" where
  "parseSlashInput input =
     (let withoutSlash = slice_from input 1 in
      case indexOf withoutSlash CHR '' '' of
        None \<Rightarrow> \<lparr>command = trim withoutSlash, argsRaw = []\<rparr>
      | Some spaceIndex \<Rightarrow>
          \<lparr>command = trim (take spaceIndex withoutSlash),
           argsRaw = trim (slice_from withoutSlash (spaceIndex + 1))\<rparr>)"

definition extractPrefix :: "string \<Rightarrow> string \<Rightarrow> string \<Rightarrow> string" where
  "extractPrefix wireName server sep =
     (let nsPrefix = server @ sep;
          toolName = (if startsWith wireName nsPrefix
                      then slice_from wireName (length nsPrefix) else wireName)
      in case indexOf toolName CHR ''_'' of
           None \<Rightarrow> toolName
         | Some underscoreIndex \<Rightarrow> take underscoreIndex toolName)"

subsection \<open>Resolving a command to a tool\<close>

text \<open>\<open>fuzzyFilter\<close> of util/fuzzy.ts: the sort by descending score is stable.\<close>

definition fuzzyFilter :: "platform \<Rightarrow> string \<Rightarrow> 'a list \<Rightarrow> ('a \<Rightarrow> string) \<Rightarrow> 'a list" where
  "fuzzyFilter P query items getText =
     (if query = [] then []
      else
        let scored = filter (\<lambda>entry. snd entry > 0)
                       (map (\<lambda>item. (item, fuzzyScore P query (getText item))) items)
        in map fst (sort_key (\<lambda>entry. - snd entry) scored))"

text \<open>
  The file has its own \<open>stripNamespace\<close>, with the text of the one in
  multiplexer/namespace.ts; its default separator is \<open>__\<close>.
\<close>

definition strippedName :: "NamespacedTool \<Rightarrow> string" where
  "strippedName t = stripNamespace (namespacedName t) (serverName t) ''__''"

definition resolveToolName ::
  "platform \<Rightarrow> string \<Rightarrow> NamespacedTool list \<Rightarrow> NamespacedTool option" where
  "resolveToolName P cmd tools =
     (case find (\<lambda>t. namespacedName t = cmd) tools of
        Some exact \<Rightarrow> Some exact
      | None \<Rightarrow>
     (case find (\<lambda>t. originalName t = cmd) tools of
        Some exactOriginal \<Rightarrow> Some exactOriginal
      | None \<Rightarrow>
     (case find (\<lambda>t. strippedName t = cmd) tools of
        Some exactStripped \<Rightarrow> Some exactStripped
      | None \<Rightarrow>
     (case fuzzyFilter P cmd tools strippedName of
        [] \<Rightarrow> None
      | [only] \<Rightarrow> Some only
      | best # runnerUp # others \<Rightarrow>
          let bestScore = fuzzyScore P cmd (strippedName best);
              runnerUpScore = fuzzyScore P cmd (strippedName runnerUp)
          in if bestScore \<ge> runnerUpScore * 2 then Some best else Some best))))"

subsection \<open>Assembling the arguments\<close>

definition coerceValue :: "platform \<Rightarrow> string \<Rightarrow> string \<Rightarrow> json" where
  "coerceValue P v ty =
     (if ty = ''number'' \<or> ty = ''integer'' then toNumber P v
      else if ty = ''boolean'' then JBool (toLowerCase P v = ''true'' \<or> v = ''1'')
      else if ty = ''array'' \<or> ty = ''object''
           then (case jsonParse P v of Some j \<Rightarrow> j | None \<Rightarrow> JStr v)
      else JStr v)"

definition idKeys :: "string list" where
  "idKeys = [''id'', ''game_id'', ''player_id'', ''app_id'', ''session_id'']"

text \<open>
  \<open>extractIdsFromResult\<close>: \<open>parsed[key]\<close> throws on \<open>null\<close>, which the \<open>catch\<close> turns into
  the empty list, and is \<open>undefined\<close> on every value that is not an object with that key.
\<close>

definition extractIdsFromResult :: "platform \<Rightarrow> string \<Rightarrow> string list" where
  "extractIdsFromResult P res =
     (case jsonParse P res of
        Some (JObj fs) \<Rightarrow>
          concat (map (\<lambda>key. case map_of fs key of Some (JStr s) \<Rightarrow> [s] | _ \<Rightarrow> []) idKeys)
      | _ \<Rightarrow> [])"

text \<open>The loop over \<open>required\<close> that fills identifiers from the session state.\<close>

fun autoFillIds :: "SessionState \<Rightarrow> string list \<Rightarrow> jobject \<Rightarrow> jobject" where
  "autoFillIds st [] mergedArgs = mergedArgs"
| "autoFillIds st (paramName # rest) mergedArgs =
     (if hasProperty mergedArgs paramName then autoFillIds st rest mergedArgs
      else if endsWith paramName ''_id'' \<or> paramName = ''id'' then
        (case getLatestId st paramName of
           Some latestId \<Rightarrow>
             if latestId \<noteq> []
             then autoFillIds st rest (obj_set mergedArgs paramName (JStr latestId))
             else autoFillIds st rest mergedArgs
         | None \<Rightarrow> autoFillIds st rest mergedArgs)
      else autoFillIds st rest mergedArgs)"

text \<open>
  The interactive prompts: \<open>rl\<close> gives the line the user types for a parameter. The
  result is the name of the parameter at which the user gave an empty answer, or the
  arguments with the answers.
\<close>

fun promptMissing ::
  "platform \<Rightarrow> (ParamInfo \<Rightarrow> string) \<Rightarrow> ParamInfo list \<Rightarrow> jobject \<Rightarrow> string + jobject" where
  "promptMissing P rl [] mergedArgs = Inr mergedArgs"
| "promptMissing P rl (param # rest) mergedArgs =
     (let v = trim (rl param) in
      if v = [] then Inl (pi_name param)
      else promptMissing P rl rest
             (obj_set mergedArgs (pi_name param) (coerceValue P v (pi_type param))))"

subsection \<open>Direct tool invocation\<close>

record SlashCommandContext =
  ctx_manager :: ServerManager
  ctx_sessionState :: SessionState
  ctx_rl :: "(ParamInfo \<Rightarrow> string) option"

text \<open>
  The text shown to the user is rendered from one of these; the rendering (colours,
  layout) is not modelled. A built-in command is not followed further: it touches neither
  the fleet nor the session state. \<open>Rejected\<close> stands for the promise being rejected
  with the error thrown.
\<close>

datatype SlashOutput =
    BuiltinCommand string string
  | Rejected error
  | NoMatchingTool string
  | InvalidJsonArgs string
  | Cancelled string
  | MissingRequiredParameters "ParamInfo list"
  | ToolOutput bool string string

text \<open>
  Besides the output, the result keeps what the invocation did: the call it dispatched to
  the fleet, if any (wire name and arguments), and the manager and session state after it.
\<close>

record SlashCommandResult =
  res_output :: SlashOutput
  dispatched :: "(string \<times> jobject) option"
  res_manager :: ServerManager
  res_sessionState :: SessionState

definition noDispatch :: "SlashCommandContext \<Rightarrow> SlashOutput \<Rightarrow> SlashCommandResult" where
  "noDispatch ctx out =
     \<lparr>res_output = out, dispatched = None,
      res_manager = ctx_manager ctx, res_sessionState = ctx_sessionState ctx\<rparr>"

text \<open>The bookkeeping of \<open>handleDirectToolCall\<close> after the call.\<close>

definition trackDirectCall ::
  "platform \<Rightarrow> SessionState \<Rightarrow> NamespacedTool \<Rightarrow> ToolCallOutcome \<Rightarrow> SessionState" where
  "trackDirectCall P sessionState tool out =
     (let st1 = (if \<not> tc_isError out then recordIds P sessionState (result out)
                 else sessionState);
          stripped = stripNamespace (namespacedName tool) (serverName tool) ''__'';
          st2 = (if hasProperty CONFIG_PREREQUISITES stripped
                 then recordConfigCall st1 stripped else st1);
          prefix = extractPrefix (namespacedName tool) (serverName tool) ''__''
      in if str_includes (namespacedName tool) ''create''
            \<or> str_includes (namespacedName tool) ''bootstrap''
         then
           (let ids = extractIdsFromResult P (result out) in
            if length ids > 0 then recordCreate st2 prefix ids
            else recordCreate st2 prefix [''_created''])
         else st2)"

definition handleDirectToolCall ::
  "platform \<Rightarrow> string \<Rightarrow> string \<Rightarrow> SlashCommandContext \<Rightarrow> SlashCommandResult" where
  "handleDirectToolCall P cmd args ctx =
     (let manager = ctx_manager ctx;
          sessionState = ctx_sessionState ctx
      in
      case getAllTools P manager of
        Inl err \<Rightarrow> noDispatch ctx (Rejected err)
      | Inr allTools \<Rightarrow>
     (case resolveToolName P cmd allTools of
        None \<Rightarrow> noDispatch ctx (NoMatchingTool cmd)
      | Some tool \<Rightarrow>
     (let schema = inputSchema tool in
      case (if args \<noteq> [] then jsonParse P args else Some (JObj [])) of
        None \<Rightarrow> noDispatch ctx (InvalidJsonArgs args)
      | Some userArgs \<Rightarrow>
     (case extractDefaults schema of
        Inl err \<Rightarrow> noDispatch ctx (Rejected err)
      | Inr defaults \<Rightarrow>
     (let mergedArgs = obj_assign defaults (ownEntries userArgs);
          required = schemaRequired schema;
          mergedArgs = autoFillIds sessionState required mergedArgs
      in
      case getRequiredParams schema of
        Inl err \<Rightarrow> noDispatch ctx (Rejected err)
      | Inr requiredParams \<Rightarrow>
     (let missingParams = filter (\<lambda>p. \<not> hasProperty mergedArgs (pi_name p)) requiredParams
      in
      case (if length missingParams > 0
            then (case ctx_rl ctx of
                    Some rl \<Rightarrow>
                      (case promptMissing P rl missingParams mergedArgs of
                         Inl name \<Rightarrow> Inl (Cancelled name)
                       | Inr filled \<Rightarrow> Inr filled)
                  | None \<Rightarrow> Inl (MissingRequiredParameters missingParams))
            else Inr mergedArgs) of
        Inl out \<Rightarrow> noDispatch ctx out
      | Inr mergedArgs \<Rightarrow>
     (case executeToolCall P manager (namespacedName tool) mergedArgs of
        (out, manager') \<Rightarrow>
          \<lparr>res_output = ToolOutput (tc_isError out) (namespacedName tool) (result out),
           dispatched = Some (namespacedName tool, mergedArgs),
           res_manager = manager',
           res_sessionState = trackDirectCall P sessionState tool out\<rparr>)))))))"

definition BUILTIN_COMMANDS :: "string list" where
  "BUILTIN_COMMANDS =
     [''tools'', ''apps'', ''servers'', ''clear'', ''model'', ''help'', ''quit'', ''exit'']"

definition handleSlashCommand :: "platform \<Rightarrow> string \<Rightarrow> SlashCommandContext \<Rightarrow> SlashCommandResult" where
  "handleSlashCommand P input ctx =
     (let parsed = parseSlashInput input in
      if command parsed \<in> set BUILTIN_COMMANDS
      then noDispatch ctx (BuiltinCommand (command parsed) (argsRaw parsed))
      else handleDirectToolCall P (command parsed) (argsRaw parsed) ctx)"

text \<open>The hook the agent loop calls when a tool call ends.\<close>

definition trackToolCallForSession ::
  "platform \<Rightarrow> string \<Rightarrow> string \<Rightarrow> bool \<Rightarrow> NamespacedTool list \<Rightarrow> SessionState \<Rightarrow> SessionState" where
  "trackToolCallForSession P toolName res isErr allTools sessionState =
     (if isErr then sessionState
      else
        case find (\<lambda>t. namespacedName t = toolName) allTools of
          None \<Rightarrow> sessionState
        | Some tool \<Rightarrow>
            let st1 = recordIds P sessionState res;
                stripped = stripNamespace toolName (serverName tool) ''__'';
                st2 = (if hasProperty CONFIG_PREREQUISITES stripped
                       then recordConfigCall st1 stripped else st1)
            in if str_includes toolName ''create'' \<or> str_includes toolName ''bootstrap''
               then
                 (let prefix = extractPrefix toolName (serverName tool) ''__'';
                      ids = extractIdsFromResult P res
                  in if length ids > 0 then recordCreate st2 prefix ids
                     else recordCreate st2 prefix [''_created''])
               else st2)"

section \<open>Concrete scenarios\<close>

text \<open>
  A platform given on the texts the scenarios use. Its \<open>JSON.parse\<close> reads three texts.
  Its case mappings are the platform's on ASCII text: they fold the letters \<open>A\<close> to
  \<open>Z\<close> and \<open>a\<close> to \<open>z\<close>. Of regular expressions, the scenarios construct the one
  with the source \<open>^?x$\<close>, which the platform refuses with a \<open>SyntaxError\<close>: \<open>?\<close>
  has nothing to repeat there.
\<close>

definition ex_toLowerCase :: "string \<Rightarrow> string" where
  "ex_toLowerCase s =
     map (\<lambda>c. case map_of (zip ''ABCDEFGHIJKLMNOPQRSTUVWXYZ'' ''abcdefghijklmnopqrstuvwxyz'') c of
                Some l \<Rightarrow> l | None \<Rightarrow> c) s"

definition ex_toUpperCase :: "string \<Rightarrow> string" where
  "ex_toUpperCase s =
     map (\<lambda>c. case map_of (zip ''abcdefghijklmnopqrstuvwxyz'' ''ABCDEFGHIJKLMNOPQRSTUVWXYZ'') c of
                Some u \<Rightarrow> u | None \<Rightarrow> c) s"

definition ex_regexTest :: "string \<Rightarrow> string \<Rightarrow> error + bool" where
  "ex_regexTest source s =
     (if source = ''^?x$''
      then Inl (SyntaxError ''Invalid regular expression: /^?x$/: Nothing to repeat'')
      else Inr False)"

definition ex_jsonParse :: "string \<Rightarrow> json option" where
  "ex_jsonParse s =
     (if s = ''{\"id\":\"game_abc\"}'' then Some (JObj [(''id'', JStr ''game_abc'')])
      else if s = ''{\"game_id\":\"game_abc\"}'' then Some (JObj [(''game_id'', JStr ''game_abc'')])
      else if s = ''{\"from\":\"e2\",\"to\":\"e4\"}''
           then Some (JObj [(''from'', JStr ''e2''), (''to'', JStr ''e4'')])
      else None)"

definition ex_platform :: platform where
  "ex_platform =
     \<lparr>jsonParse = ex_jsonParse,
      jsonStringify = (\<lambda>j. []),
      jsonStringifyPretty = (\<lambda>j. []),
      regexTest = ex_regexTest,
      toNumber = (\<lambda>s. JNull),
      toLowerCase = ex_toLowerCase,
      toUpperCase = ex_toUpperCase\<rparr>"

definition ex_tool :: "string \<Rightarrow> ToolInfo" where
  "ex_tool n = \<lparr>ti_name = n, ti_description = None, ti_inputSchema = [(''type'', JStr ''object'')]\<rparr>"

definition ex_result :: CallToolResult where
  "ex_result = \<lparr>content = [textContent ''3 tests passed''], isError = Some False\<rparr>"

definition ex_client :: "string \<Rightarrow> ToolInfo list \<Rightarrow> UpstreamClient" where
  "ex_client n tools =
     \<lparr>uc_name = n, uc_tools = tools, uc_connected = True, uc_client = (\<lambda>t a. Inr ex_result)\<rparr>"

definition ex_fleet :: ServerManager where
  "ex_fleet =
     \<lparr>upstreams = [(''test'', ex_client ''test'' [ex_tool ''run'']),
                   (''test_server'', ex_client ''test_server'' [ex_tool ''do_thing''])],
      serverConfigs = [],
      separator = ''__'',
      noPrefix = False,
      toolsetManager = None\<rparr>"

definition ex_toolsets :: "(string \<times> ToolsetConfig) list" where
  "ex_toolsets =
     [(''github'', \<lparr>ts_servers = [''github-mcp''], ts_description = None\<rparr>),
      (''testing'', \<lparr>ts_servers = [''vitest'', ''playwright''], ts_description = None\<rparr>)]"

definition ex_lazy_fleet :: "toolsetOp list \<Rightarrow> ServerManager" where
  "ex_lazy_fleet ops =
     \<lparr>upstreams = [(''github-mcp'', ex_client ''github-mcp'' [ex_tool ''create_issue'']),
                   (''vitest'', ex_client ''vitest'' [ex_tool ''run_tests''])],
      serverConfigs = [],
      separator = ''__'',
      noPrefix = False,
      toolsetManager = Some (runOps (newToolsetManager ex_toolsets (\<lambda>s. 1)) ops)\<rparr>"

text \<open>A fleet whose upstream \<open>test\<close> has a stored configuration.\<close>

definition ex_stdio_config :: "string \<Rightarrow> ServerConfig" where
  "ex_stdio_config cmd =
     \<lparr>sc_type = None, sc_command = Some cmd, sc_args = None, sc_url = None, sc_env = None,
      sc_tools = None\<rparr>"

definition ex_configured_fleet :: ServerManager where
  "ex_configured_fleet = ex_fleet\<lparr>serverConfigs := [(''test'', ex_stdio_config ''v1'')]\<rparr>"

text \<open>
  The fleet with the tool filter \<open>tools: { allowed: ["?x"] }\<close> in the configuration of
  \<open>test_server\<close>, and the lazy fleet with the same filter on \<open>github-mcp\<close>.
\<close>

definition ex_filtered_config :: ServerConfig where
  "ex_filtered_config =
     \<lparr>sc_type = None, sc_command = Some ''srv'', sc_args = None, sc_url = None, sc_env = None,
      sc_tools = Some \<lparr>allowed = Some [''?x''], blocked = None\<rparr>\<rparr>"

definition ex_filtered_fleet :: ServerManager where
  "ex_filtered_fleet = ex_fleet\<lparr>serverConfigs := [(''test_server'', ex_filtered_config)]\<rparr>"

definition ex_filtered_lazy_fleet :: "toolsetOp list \<Rightarrow> ServerManager" where
  "ex_filtered_lazy_fleet ops =
     (ex_lazy_fleet ops)\<lparr>serverConfigs := [(''github-mcp'', ex_filtered_config)]\<rparr>"

text \<open>A connect that fails.\<close>

definition ex_failing_connect :: "string \<Rightarrow> ServerConfig \<Rightarrow> error + UpstreamClient" where
  "ex_failing_connect n c = Inl (Error ''spawn failed'')"

text \<open>
  A chat client that first asks for the toolset \<open>github\<close> to be loaded and then answers
  with text.
\<close>

definition ex_chat :: ChatClient where
  "ex_chat =
     \<lparr>model = ''claude-sonnet-4-6'',
      createStream =
        (\<lambda>messages tools.
           if length messages = 1
           then Inr [ToolUseBlock ''t1'' ''spike__load_toolset'' [(''name'', JStr ''github'')]]
           else Inr [TextBlock ''done''])\<rparr>"

definition ex_run :: LoopResult where
  "ex_run = runAgentLoop ex_platform ex_chat (ex_lazy_fleet []) [] None (Text ''use github'')"

text \<open>A catalog entry whose schema has the top-level \<open>type\<close> \<open>string\<close>.\<close>

definition ex_string_schema_tool :: NamespacedTool where
  "ex_string_schema_tool =
     \<lparr>namespacedName = ''s__echo'', originalName = ''echo'', serverName = ''s'',
      description = None, inputSchema = [(''type'', JStr ''string'')]\<rparr>"

text \<open>
  A fleet with one upstream \<open>s\<close> offering \<open>chess_create_game\<close> (one optional parameter with
  a default), \<open>chess_make_move\<close> (requiring \<open>game_id\<close>, \<open>from\<close> and \<open>to\<close>) and
  \<open>set_project_root\<close>. The result text and the error flag of \<open>chess_create_game\<close> are
  parameters of the scenario; \<open>set_project_root\<close> always answers with an error result.
\<close>

definition ex_chess_tools :: "ToolInfo list" where
  "ex_chess_tools =
     [\<lparr>ti_name = ''chess_create_game'', ti_description = None,
       ti_inputSchema =
         [(''type'', JStr ''object''),
          (''properties'',
             JObj [(''time_control'',
                    JObj [(''type'', JStr ''string''), (''default'', JStr ''BLITZ_5'')])])]\<rparr>,
      \<lparr>ti_name = ''chess_make_move'', ti_description = None,
       ti_inputSchema =
         [(''type'', JStr ''object''),
          (''properties'',
             JObj [(''game_id'', JObj [(''type'', JStr ''string'')]),
                   (''from'', JObj [(''type'', JStr ''string'')]),
                   (''to'', JObj [(''type'', JStr ''string'')])]),
          (''required'', JArr [JStr ''game_id'', JStr ''from'', JStr ''to''])]\<rparr>,
      \<lparr>ti_name = ''set_project_root'', ti_description = None,
       ti_inputSchema = [(''type'', JStr ''object''), (''properties'', JObj [])]\<rparr>]"

definition ex_chess_fleet :: "string \<Rightarrow> bool \<Rightarrow> ServerManager" where
  "ex_chess_fleet createText createIsError =
     \<lparr>upstreams =
        [(''s'',
          \<lparr>uc_name = ''s'', uc_tools = ex_chess_tools, uc_connected = True,
           uc_client =
             (\<lambda>t a. if t = ''chess_create_game''
                    then Inr \<lparr>content = [textContent createText], isError = Some createIsError\<rparr>
                    else if t = ''set_project_root''
                    then Inr \<lparr>content = [textContent ''Error: no such directory''],
                              isError = Some True\<rparr>
                    else Inr \<lparr>content = [textContent ''ok''], isError = Some False\<rparr>)\<rparr>)],
      serverConfigs = [],
      separator = ''__'',
      noPrefix = False,
      toolsetManager = None\<rparr>"

definition ex_fresh_context :: "string \<Rightarrow> bool \<Rightarrow> SlashCommandContext" where
  "ex_fresh_context createText createIsError =
     \<lparr>ctx_manager = ex_chess_fleet createText createIsError,
      ctx_sessionState = newSessionState,
      ctx_rl = None\<rparr>"

text \<open>The context in which the next command runs.\<close>

definition contextAfter :: "SlashCommandContext \<Rightarrow> SlashCommandResult \<Rightarrow> SlashCommandContext" where
  "contextAfter ctx r =
     ctx\<lparr>ctx_manager := res_manager r, ctx_sessionState := res_sessionState r\<rparr>"

text \<open>
  \<open>/chess_create_game\<close> in a fresh session, answered with the given text, and then
  \<open>/chess_make_move {"from":"e2","to":"e4"}\<close>: the results of the two commands.
\<close>

definition ex_create_then_move :: "string \<Rightarrow> SlashCommandResult \<times> SlashCommandResult" where
  "ex_create_then_move createText =
     (let ctx0 = ex_fresh_context createText False;
          r1 = handleSlashCommand ex_platform ''/chess_create_game'' ctx0;
          r2 = handleSlashCommand ex_platform ''/chess_make_move {\"from\":\"e2\",\"to\":\"e4\"}''
                 (contextAfter ctx0 r1)
      in (r1, r2))"

section \<open>Properties of the namespacer\<close>

lemma parseLoop_find:
  "parseLoop w sep xs =
     (case find (\<lambda>server. startsWith w (server @ sep)) xs of
        None \<Rightarrow> None
      | Some server \<Rightarrow>
          Some \<lparr>pt_serverName = server, pt_toolName = drop (length (server @ sep)) w\<rparr>)"
  by (induction xs) (auto simp: Let_def slice_from_def)

text \<open>
  The first element of a stably key-sorted list that satisfies a predicate has the least
  key among all elements that satisfy it.
\<close>

lemma find_sort_key_min:
  assumes "find P (sort_key f xs) = Some v"
  shows "P v \<and> v \<in> set xs \<and> (\<forall>u\<in>set xs. P u \<longrightarrow> f v \<le> f u)"
proof -
  let ?ys = "sort_key f xs"
  from assms obtain i where i: "i < length ?ys" "P (?ys ! i)" "v = ?ys ! i" "\<forall>j<i. \<not> P (?ys ! j)"
    by (auto simp: find_Some_iff)
  have s: "sorted (map f ?ys)" by simp
  have "v \<in> set xs" using i(1,3) by (metis nth_mem set_sort)
  moreover have "\<forall>u\<in>set xs. P u \<longrightarrow> f v \<le> f u"
  proof (intro ballI impI)
    fix u assume "u \<in> set xs" "P u"
    then have "u \<in> set ?ys" by simp
    then obtain j where j: "j < length ?ys" "?ys ! j = u" unfolding in_set_conv_nth by blast
    with \<open>P u\<close> i(4) have "i \<le> j" by (meson not_le)
    with s j(1) have "map f ?ys ! i \<le> map f ?ys ! j"
      by (simp add: sorted_iff_nth_mono del: sorted_sort_key)
    then show "f v \<le> f u" using i j \<open>i \<le> j\<close> by simp
  qed
  ultimately show ?thesis using i by simp
qed

lemma startsWith_take:
  assumes "startsWith w (u @ s)"
  shows "take (length u) w = u"
proof -
  from assms have a: "take (length (u @ s)) w = u @ s" by (simp add: startsWith_def)
  have "take (length u) w = take (length u) (take (length (u @ s)) w)" by (simp add: min_def)
  also have "\<dots> = take (length u) (u @ s)" by (simp only: a)
  also have "\<dots> = u" by simp
  finally show ?thesis .
qed

lemma startsWith_same_length:
  "startsWith w (u @ s) \<Longrightarrow> startsWith w (v @ s) \<Longrightarrow> length u = length v \<Longrightarrow> u = v"
  by (metis startsWith_take)

text \<open>
  Claim C2, as stated, fails: with the separator \<open>_\<close> and the known servers \<open>test\<close> and
  \<open>test_server\<close>, the wire name of tool \<open>server_do_thing\<close> on server \<open>test\<close> is
  \<open>test_server_do_thing\<close>, and the greedy parse returns \<open>(test_server, do_thing)\<close>.
\<close>

theorem C2_roundtrip_counterexample:
  "''test'' \<in> set [''test'', ''test_server''] \<and>
   parseNamespacedTool (namespaceTool ''test'' ''server_do_thing'' ''_'')
       [''test'', ''test_server''] ''_''
     = Some \<lparr>pt_serverName = ''test_server'', pt_toolName = ''do_thing''\<rparr> \<and>
   parseNamespacedTool (namespaceTool ''test'' ''server_do_thing'' ''_'')
       [''test'', ''test_server''] ''_''
     \<noteq> Some \<lparr>pt_serverName = ''test'', pt_toolName = ''server_do_thing''\<rparr>"
  by (simp add: parseNamespacedTool_def namespaceTool_def sortByLengthDesc_def
      startsWith_def slice_from_def)

text \<open>
  Claim C2, amended: for every server name \<open>u\<close>, tool name \<open>t\<close>, separator \<open>s\<close> and list
  of known servers that contains \<open>u\<close>, parsing the namespaced name gives back \<open>(u, t)\<close>,
  provided no strictly longer known server name followed by the separator is a prefix
  of the namespaced name.
\<close>

theorem C2_roundtrip:
  assumes mem: "u \<in> set knownServers"
    and longest: "\<forall>v\<in>set knownServers. length u < length v \<longrightarrow>
                    \<not> startsWith (namespaceTool u t s) (v @ s)"
  shows "parseNamespacedTool (namespaceTool u t s) knownServers s =
           Some \<lparr>pt_serverName = u, pt_toolName = t\<rparr>"
proof -
  let ?w = "namespaceTool u t s"
  let ?P = "\<lambda>server. startsWith ?w (server @ s)"
  let ?f = "\<lambda>a::string. - int (length a)"
  have Pu: "?P u" by (simp add: namespaceTool_def startsWith_def)
  with mem have "find ?P (sort_key ?f knownServers) \<noteq> None"
    by (auto simp: find_None_iff)
  then obtain v where v: "find ?P (sort_key ?f knownServers) = Some v" by blast
  from find_sort_key_min[OF v] have Pv: "?P v" and vmem: "v \<in> set knownServers"
    and le: "?f v \<le> ?f u" using mem Pu by auto
  from longest vmem Pv have "\<not> length u < length v" by blast
  with le have "length u = length v" by simp
  with Pu Pv have "u = v" by (rule startsWith_same_length[of ?w u s v])
  then show ?thesis using v
    by (simp add: parseNamespacedTool_def sortByLengthDesc_def parseLoop_find namespaceTool_def)
qed

theorem C2_roundtrip_witness:
  "parseNamespacedTool (namespaceTool ''test'' ''do_thing'' ''__'')
       [''test'', ''test_server''] ''__''
     = Some \<lparr>pt_serverName = ''test'', pt_toolName = ''do_thing''\<rparr>"
  using C2_roundtrip[of "''test''" "[''test'', ''test_server'']" "''do_thing''" "''__''"]
  by (simp add: namespaceTool_def startsWith_def)

section \<open>Properties of the reconnect backoff\<close>

text \<open>
  Claim C7: for every attempt number \<open>n\<close>, \<open>calculateBackoff(n)\<close> with the default
  options is \<open>min(1000 * 2^n, 30000)\<close> milliseconds; it never exceeds \<open>30000\<close> and it
  never decreases from one attempt to the next.
\<close>

theorem C7_calculateBackoff_default:
  "calculateBackoff n None = min (1000 * 2 ^ n) 30000
   \<and> calculateBackoff n None \<le> 30000
   \<and> calculateBackoff n None \<le> calculateBackoff (Suc n) None"
  by (simp add: calculateBackoff_def mergeOptions_def DEFAULT_OPTIONS_def Let_def min_def)

section \<open>Properties of the fuzzy score\<close>








section \<open>Properties of the toolset manager and the server manager\<close>

lemma toolsets_applyOp [simp]: "toolsets (applyOp tm op) = toolsets tm"
  by (cases op) (auto simp: loadToolset_def unloadToolset_def Let_def split: property.splits)

lemma toolsets_runOps [simp]: "toolsets (runOps tm ops) = toolsets tm"
  unfolding runOps_def by (induction ops arbitrary: tm) auto

lemma loaded_load:
  "loadedToolsets (snd (loadToolset tm n)) =
     (if getProperty (toolsets tm) n = Missing then loadedToolsets tm
      else insert n (loadedToolsets tm))"
  by (auto simp: loadToolset_def Let_def split: property.splits)

lemma loaded_unload:
  "loadedToolsets (snd (unloadToolset tm n)) =
     (if getProperty (toolsets tm) n = Missing then loadedToolsets tm
      else loadedToolsets tm - {n})"
  by (auto simp: unloadToolset_def split: property.splits)

lemma runOps_snoc: "runOps tm (ops @ [op]) = applyOp (runOps tm ops) op"
  by (simp add: runOps_def)

lemma loaded_runOps:
  "loadedToolsets tm = {} \<Longrightarrow>
   name \<in> loadedToolsets (runOps tm ops) \<longleftrightarrow> ref_currentlyLoaded (toolsets tm) ops name"
proof (induction ops rule: rev_induct)
  case Nil
  then show ?case by (simp add: runOps_def ref_currentlyLoaded_def)
next
  case (snoc op ops)
  show ?case
  proof (cases "op = LoadToolset name \<or> op = UnloadToolset name")
    case True
    have known: "name \<in> loadedToolsets (runOps tm ops) \<Longrightarrow> getProperty (toolsets tm) name \<noteq> Missing"
      using snoc by (auto simp: ref_currentlyLoaded_def split: list.splits)
    from True show ?thesis using known
      by (auto simp: runOps_snoc loaded_load loaded_unload ref_currentlyLoaded_def split: if_splits)
  next
    case False
    then have "name \<in> loadedToolsets (applyOp (runOps tm ops) op) \<longleftrightarrow> name \<in> loadedToolsets (runOps tm ops)"
      by (cases op) (auto simp: loaded_load loaded_unload)
    with snoc False show ?thesis
      by (simp add: runOps_snoc ref_currentlyLoaded_def)
  qed
qed

lemma loadedContaining_iff:
  "loadedContaining loaded server cfg \<longleftrightarrow>
     list_ex (\<lambda>(name, ts). server \<in> set (ts_servers ts) \<and> name \<in> loaded) cfg"
  by (induction loaded server cfg rule: loadedContaining.induct) auto

lemma isServerVisible_iff:
  "isServerVisible tm server \<longleftrightarrow>
     (\<not> list_ex (\<lambda>(name, ts). server \<in> set (ts_servers ts)) (toolsets tm)
      \<or> list_ex (\<lambda>(name, ts). server \<in> set (ts_servers ts) \<and> name \<in> loadedToolsets tm) (toolsets tm))"
  by (auto simp: isServerVisible_def Let_def loadedContaining_iff list_ex_iff)

lemma upstreamTools_concat:
  assumes "\<And>name client. (name, client) \<in> set ups \<Longrightarrow> \<not> hiddenByToolset m name \<Longrightarrow>
             getFilteredTools P m name client = Inr (filtered name client)"
  shows "upstreamTools P m ups acc =
     Inr (acc @ concat (map (\<lambda>(name, client).
                          if \<not> hiddenByToolset m name
                          then map (toNamespacedTool m name) (filtered name client)
                          else []) ups))"
  using assms
proof (induction ups arbitrary: acc)
  case Nil
  then show ?case by simp
next
  case (Cons entry ups)
  obtain name client where entry: "entry = (name, client)" by (cases entry)
  have rest: "\<And>acc'. upstreamTools P m ups acc' =
     Inr (acc' @ concat (map (\<lambda>(name, client).
                          if \<not> hiddenByToolset m name
                          then map (toNamespacedTool m name) (filtered name client)
                          else []) ups))"
    by (rule Cons.IH) (simp add: Cons.prems)
  show ?case
  proof (cases "hiddenByToolset m name")
    case True
    then show ?thesis by (simp add: entry rest)
  next
    case False
    then have "getFilteredTools P m name client = Inr (filtered name client)"
      by (simp add: Cons.prems entry)
    with False show ?thesis by (simp add: entry rest)
  qed
qed

text \<open>
  For every toolset configuration and every sequence of \<open>loadToolset\<close> and
  \<open>unloadToolset\<close> operations on a fresh toolset manager, \<open>isServerVisible(server)\<close> is
  true iff the server appears in no toolset's \<open>servers\<close> list, or at least one toolset
  whose \<open>servers\<close> list contains it is currently loaded.
\<close>

lemma isServerVisible_runOps:
  "isServerVisible (runOps (newToolsetManager cfg fn) ops) server \<longleftrightarrow> ref_visible cfg ops server"
proof -
  let ?tm = "runOps (newToolsetManager cfg fn) ops"
  have ts: "toolsets ?tm = cfg" by (simp add: newToolsetManager_def)
  have ld: "\<And>n. n \<in> loadedToolsets ?tm \<longleftrightarrow> ref_currentlyLoaded cfg ops n"
    using loaded_runOps[of "newToolsetManager cfg fn" _ ops] by (simp add: newToolsetManager_def)
  show ?thesis
    unfolding isServerVisible_iff ref_visible_def ts by (simp add: ld)
qed

text \<open>
  Where the tool filter of every visible upstream evaluates, \<open>getAllTools()\<close> is, upstream
  by upstream in the order of the fleet, the filtered and namespaced tools of exactly the
  visible upstreams, followed by the meta-tools.
\<close>

lemma getAllTools_visible:
  assumes tm: "toolsetManager m = Some (runOps (newToolsetManager cfg fn) ops)"
    and filters: "\<And>name client. (name, client) \<in> set (upstreams m) \<Longrightarrow> ref_visible cfg ops name \<Longrightarrow>
                   getFilteredTools P m name client = Inr (filtered name client)"
  shows "getAllTools P m =
         Inr (concat (map (\<lambda>(name, client).
                        if ref_visible cfg ops name
                        then map (toNamespacedTool m name) (filtered name client)
                        else []) (upstreams m))
              @ map metaToolEntry getMetaTools)"
proof -
  have hid: "\<And>s. hiddenByToolset m s \<longleftrightarrow> \<not> ref_visible cfg ops s"
    by (simp add: hiddenByToolset_def tm isServerVisible_runOps)
  have "upstreamTools P m (upstreams m) [] =
     Inr ([] @ concat (map (\<lambda>(name, client).
                          if \<not> hiddenByToolset m name
                          then map (toNamespacedTool m name) (filtered name client)
                          else []) (upstreams m)))"
    by (rule upstreamTools_concat) (simp add: hid filters)
  then show ?thesis
    by (simp add: getAllTools_def tm hid)
qed

text \<open>
  Claim C3 (\<open>getAllTools()\<close> includes a connected upstream's filtered, namespaced tools iff
  that upstream is visible) does not hold of the code where a tool filter has a pattern
  with \<open>?\<close>. The code evaluated: the toolsets are \<open>github\<close> with the server \<open>github-mcp\<close>
  and \<open>testing\<close> with \<open>vitest\<close> and \<open>playwright\<close>; \<open>github\<close> has been loaded, so
  \<open>github-mcp\<close> is visible and \<open>vitest\<close> is not; the configuration of \<open>github-mcp\<close> has
  the filter \<open>allowed: ["?x"]\<close>. \<open>matchesGlob\<close> leaves \<open>?\<close> unescaped, the regular
  expression it builds has the source \<open>^?x$\<close>, and \<open>getAllTools()\<close> throws the
  \<open>SyntaxError\<close> of \<open>new RegExp\<close> instead of giving a catalog.
\<close>

theorem C3_getAllTools_throws:
  "isServerVisible (runOps (newToolsetManager ex_toolsets (\<lambda>s. 1)) [LoadToolset ''github''])
     ''github-mcp''
   \<and> \<not> isServerVisible (runOps (newToolsetManager ex_toolsets (\<lambda>s. 1)) [LoadToolset ''github''])
         ''vitest''
   \<and> map fst (upstreams (ex_filtered_lazy_fleet [LoadToolset ''github'']))
       = [''github-mcp'', ''vitest'']
   \<and> globRegexSource ''?x'' = ''^?x$''
   \<and> getAllTools ex_platform (ex_filtered_lazy_fleet [LoadToolset ''github''])
       = Inl (SyntaxError ''Invalid regular expression: /^?x$/: Nothing to repeat'')"
  by code_simp

lemma parse_None:
  "\<not> list_ex (\<lambda>u. startsWith w (u @ sep)) names \<Longrightarrow> parseNamespacedTool w names sep = None"
  by (simp add: parseNamespacedTool_def sortByLengthDesc_def parseLoop_find find_None_iff list_ex_iff
      split: option.splits)

lemma parse_Some:
  assumes "list_ex (\<lambda>u. startsWith w (u @ sep)) names"
  shows "\<exists>u. ref_owner w names sep u \<and>
             parseNamespacedTool w names sep =
               Some \<lparr>pt_serverName = u, pt_toolName = drop (length (u @ sep)) w\<rparr>"
proof -
  let ?P = "\<lambda>u. startsWith w (u @ sep)"
  let ?f = "\<lambda>a::string. - int (length a)"
  from assms have "find ?P (sort_key ?f names) \<noteq> None"
    by (auto simp: find_None_iff list_ex_iff)
  then obtain v where v: "find ?P (sort_key ?f names) = Some v" by blast
  from find_sort_key_min[OF v] have "?P v" "v \<in> set names" "\<forall>u\<in>set names. ?P u \<longrightarrow> length u \<le> length v"
    by auto
  then have "ref_owner w names sep v"
    by (auto simp: ref_owner_def ref_isPrefixOwner_def list_all_iff)
  moreover have "parseNamespacedTool w names sep =
               Some \<lparr>pt_serverName = v, pt_toolName = drop (length (v @ sep)) w\<rparr>"
    using v by (simp add: parseNamespacedTool_def sortByLengthDesc_def parseLoop_find)
  ultimately show ?thesis by blast
qed

lemma ref_owner_unique:
  assumes "ref_owner w names sep u" "ref_owner w names sep v"
  shows "u = v"
proof -
  from assms have "length u = length v"
    by (auto simp: ref_owner_def list_all_iff intro: le_antisym)
  with assms show ?thesis
    by (auto simp: ref_owner_def ref_isPrefixOwner_def intro: startsWith_same_length)
qed

text \<open>
  For every wire name \<open>w\<close> that is not a toolset meta-tool and every argument map, in
  prefixed mode: if no registered upstream name followed by the separator is a prefix of
  \<open>w\<close>, \<open>callTool(w, args)\<close> fails with \<open>CannotResolve\<close>; otherwise there is exactly one
  owner of \<open>w\<close>, the registered upstream with the longest such prefix; if it is hidden
  by toolset visibility the call fails with \<open>ToolsetNotLoaded\<close>; if evaluating the tool
  filter of that upstream throws, the call fails with that error; if the rest of \<open>w\<close>
  after the prefix is not the name of a tool in that upstream's filtered tool list it
  fails with \<open>ToolNotFound\<close>; otherwise the outcome is that of the owning upstream's
  \<open>callTool\<close> on the rest of \<open>w\<close>, unchanged. The manager is left as it was.
\<close>

lemma callTool_prefixed:
  assumes notMeta: "\<not> isMetaTool w" and prefixed: "\<not> noPrefix m"
  shows "(\<not> list_ex (ref_isPrefixOwner w (separator m)) (getServerNames m)
            \<longrightarrow> callTool P m w args = (Inl (CannotResolve w), m))
       \<and> (list_ex (ref_isPrefixOwner w (separator m)) (getServerNames m)
            \<longrightarrow> (\<exists>u. ref_owner w (getServerNames m) (separator m) u))
       \<and> (\<forall>u v. ref_owner w (getServerNames m) (separator m) u
                \<and> ref_owner w (getServerNames m) (separator m) v \<longrightarrow> u = v)
       \<and> (\<forall>u. ref_owner w (getServerNames m) (separator m) u \<longrightarrow>
            (\<exists>client. map_of (upstreams m) u = Some client \<and>
               callTool P m w args =
                 (if hiddenByToolset m u then Inl (ToolsetNotLoaded w)
                  else case getFilteredTools P m u client of
                         Inl err \<Rightarrow> Inl err
                       | Inr filteredTools \<Rightarrow>
                           if drop (length (u @ separator m)) w \<notin> ti_name ` set filteredTools
                           then Inl (ToolNotFound w)
                           else UpstreamClient_callTool client
                                  (drop (length (u @ separator m)) w) args,
                  m)))"
proof (intro conjI impI allI)
  assume "\<not> list_ex (ref_isPrefixOwner w (separator m)) (getServerNames m)"
  then have "parseNamespacedTool w (map fst (upstreams m)) (separator m) = None"
    using parse_None[of w "separator m" "map fst (upstreams m)"]
    by (simp add: getServerNames_def ref_isPrefixOwner_def[abs_def])
  then show "callTool P m w args = (Inl (CannotResolve w), m)"
    using notMeta prefixed by (simp add: callTool_def)
next
  assume "list_ex (ref_isPrefixOwner w (separator m)) (getServerNames m)"
  then show "\<exists>u. ref_owner w (getServerNames m) (separator m) u"
    using parse_Some[of w "separator m" "getServerNames m"]
    by (auto simp: ref_isPrefixOwner_def[abs_def])
next
  fix u v
  assume "ref_owner w (getServerNames m) (separator m) u \<and> ref_owner w (getServerNames m) (separator m) v"
  then show "u = v" by (blast intro: ref_owner_unique)
next
  fix u
  assume own: "ref_owner w (getServerNames m) (separator m) u"
  then have "list_ex (\<lambda>u. startsWith w (u @ separator m)) (getServerNames m)"
    by (auto simp: ref_owner_def ref_isPrefixOwner_def list_ex_iff)
  from parse_Some[OF this] obtain v where v: "ref_owner w (getServerNames m) (separator m) v"
    and p: "parseNamespacedTool w (getServerNames m) (separator m) =
               Some \<lparr>pt_serverName = v, pt_toolName = drop (length (v @ separator m)) w\<rparr>"
    by blast
  from own v have uv: "v = u" by (blast intro: ref_owner_unique)
  from own have "u \<in> fst ` set (upstreams m)" by (simp add: ref_owner_def getServerNames_def)
  then obtain client where c: "map_of (upstreams m) u = Some client"
    by (metis domD dom_map_of_conv_image_fst)
  have ex: "\<And>x xs. list_ex (\<lambda>t. ti_name t = x) xs \<longleftrightarrow> x \<in> ti_name ` set xs"
    by (auto simp: list_ex_iff)
  have "callTool P m w args =
                 (if hiddenByToolset m u then Inl (ToolsetNotLoaded w)
                  else case getFilteredTools P m u client of
                         Inl err \<Rightarrow> Inl err
                       | Inr filteredTools \<Rightarrow>
                           if drop (length (u @ separator m)) w \<notin> ti_name ` set filteredTools
                           then Inl (ToolNotFound w)
                           else UpstreamClient_callTool client
                                  (drop (length (u @ separator m)) w) args,
                  m)"
    using notMeta prefixed p c uv
    by (simp add: callTool_def getServerNames_def Let_def ex split: sum.splits)
  with c show "\<exists>client. map_of (upstreams m) u = Some client \<and>
               callTool P m w args =
                 (if hiddenByToolset m u then Inl (ToolsetNotLoaded w)
                  else case getFilteredTools P m u client of
                         Inl err \<Rightarrow> Inl err
                       | Inr filteredTools \<Rightarrow>
                           if drop (length (u @ separator m)) w \<notin> ti_name ` set filteredTools
                           then Inl (ToolNotFound w)
                           else UpstreamClient_callTool client
                                  (drop (length (u @ separator m)) w) args,
                  m)" by blast
qed

text \<open>
  Claim C1 (in prefixed mode \<open>callTool(w, args)\<close> fails with \<open>CannotResolve\<close>,
  \<open>ToolsetNotLoaded\<close> or \<open>ToolNotFound\<close>, or returns the owning upstream's result) does
  not hold of the code where the tool filter of the owning upstream has a pattern with
  \<open>?\<close>. The code evaluated: the fleet has the upstreams \<open>test\<close> and \<open>test_server\<close>, the
  separator \<open>__\<close>, no toolset manager, and the filter \<open>allowed: ["?x"]\<close> in the
  configuration of \<open>test_server\<close>, which offers \<open>do_thing\<close>. The wire name
  \<open>test_server__do_thing\<close> is no meta-tool and parses to \<open>test_server\<close> and \<open>do_thing\<close>;
  the upstream is not hidden; \<open>matchesGlob\<close> leaves \<open>?\<close> unescaped, the regular
  expression it builds has the source \<open>^?x$\<close>, and the call fails with the
  \<open>SyntaxError\<close> of \<open>new RegExp\<close>, which is none of the outcomes of the claim.
\<close>

theorem C1_callTool_throws:
  "\<not> isMetaTool ''test_server__do_thing''
   \<and> \<not> noPrefix ex_filtered_fleet
   \<and> parseNamespacedTool ''test_server__do_thing'' (getServerNames ex_filtered_fleet)
       (separator ex_filtered_fleet)
       = Some \<lparr>pt_serverName = ''test_server'', pt_toolName = ''do_thing''\<rparr>
   \<and> \<not> hiddenByToolset ex_filtered_fleet ''test_server''
   \<and> map ti_name (uc_tools (ex_client ''test_server'' [ex_tool ''do_thing''])) = [''do_thing'']
   \<and> escapeRegex ''?x'' = ''?x''
   \<and> fst (callTool ex_platform ex_filtered_fleet ''test_server__do_thing'' [])
       = Inl (SyntaxError ''Invalid regular expression: /^?x$/: Nothing to repeat'')"
  by code_simp

text \<open>
  Claim C9: in prefixed mode \<open>callTool\<close> parses the wire name against exactly the keys of
  the upstream map, so whenever \<open>parseNamespacedTool\<close> returns a parsed server name, the
  lookup of that name in the upstream map succeeds: the \<open>Server not connected\<close> branch is
  never taken.
\<close>

theorem C9_parsed_server_is_connected:
  assumes "parseNamespacedTool w (map fst (upstreams m)) (separator m) = Some parsed"
  shows "\<exists>client. map_of (upstreams m) (pt_serverName parsed) = Some client"
proof -
  let ?P = "\<lambda>server. startsWith w (server @ separator m)"
  let ?f = "\<lambda>a::string. - int (length a)"
  from assms obtain v where v: "find ?P (sort_key ?f (map fst (upstreams m))) = Some v"
    and p: "pt_serverName parsed = v"
    by (auto simp: parseNamespacedTool_def sortByLengthDesc_def parseLoop_find split: option.splits)
  from find_sort_key_min[OF v] have "v \<in> fst ` set (upstreams m)" by simp
  then show ?thesis unfolding p by (metis domD dom_map_of_conv_image_fst)
qed

theorem C9_parsed_server_is_connected_witness:
  "parseNamespacedTool ''test_server__do_thing'' (map fst (upstreams ex_fleet)) (separator ex_fleet)
     = Some \<lparr>pt_serverName = ''test_server'', pt_toolName = ''do_thing''\<rparr>
   \<and> (\<exists>client. map_of (upstreams ex_fleet) ''test_server'' = Some client)"
proof -
  have h: "parseNamespacedTool ''test_server__do_thing'' (map fst (upstreams ex_fleet))
             (separator ex_fleet)
           = Some \<lparr>pt_serverName = ''test_server'', pt_toolName = ''do_thing''\<rparr>"
    by (simp add: parseNamespacedTool_def sortByLengthDesc_def ex_fleet_def startsWith_def
        slice_from_def)
  from C9_parsed_server_is_connected[OF h] h show ?thesis by simp
qed

lemma map_of_map_delete: "map_of (map_delete k xs) = (map_of xs)(k := None)"
  by (induction xs) (auto simp: map_delete_def)

lemma keys_map_delete: "fst ` set (map_delete k xs) = fst ` set xs - {k}"
  by (induction xs) (auto simp: map_delete_def)

text \<open>
  Claim C10: \<open>reconnect(name, config)\<close> is not atomic on failure. If connecting the fresh
  client throws, the error propagates, and afterwards the upstream map has no entry for
  \<open>name\<close> (an existing connection was closed and removed before the connect was tried),
  the other upstreams are as before, and the server-config map is as it was, so an entry
  stored for \<open>name\<close> stays.
\<close>

theorem C10_reconnect_failure:
  assumes "connect name config = Inl err"
  shows "fst (reconnect connect m name config) = Inl err
     \<and> name \<notin> fst ` set (upstreams (snd (reconnect connect m name config)))
     \<and> (\<forall>other. other \<noteq> name \<longrightarrow>
           map_of (upstreams (snd (reconnect connect m name config))) other
             = map_of (upstreams m) other)
     \<and> serverConfigs (snd (reconnect connect m name config)) = serverConfigs m"
proof (cases "map_of (upstreams m) name")
  case None
  then have "name \<notin> fst ` set (upstreams m)" by (simp add: map_of_eq_None_iff)
  with None assms show ?thesis by (simp add: reconnect_def)
next
  case (Some existing)
  with assms show ?thesis
    by (simp add: reconnect_def keys_map_delete map_of_map_delete)
qed

theorem C10_reconnect_failure_witness:
  "fst (reconnect ex_failing_connect ex_configured_fleet ''test'' (ex_stdio_config ''v2''))
     = Inl (Error ''spawn failed'')
   \<and> ''test'' \<in> fst ` set (upstreams ex_configured_fleet)
   \<and> ''test'' \<notin> fst ` set (upstreams (snd (reconnect ex_failing_connect ex_configured_fleet
                                            ''test'' (ex_stdio_config ''v2''))))
   \<and> serverConfigs (snd (reconnect ex_failing_connect ex_configured_fleet ''test''
                            (ex_stdio_config ''v2'')))
       = [(''test'', ex_stdio_config ''v1'')]"
proof -
  have h: "ex_failing_connect ''test'' (ex_stdio_config ''v2'') = Inl (Error ''spawn failed'')"
    by (simp add: ex_failing_connect_def)
  have before: "''test'' \<in> fst ` set (upstreams ex_configured_fleet)"
    by (simp add: ex_configured_fleet_def ex_fleet_def)
  have cfg: "serverConfigs ex_configured_fleet = [(''test'', ex_stdio_config ''v1'')]"
    by (simp add: ex_configured_fleet_def)
  from C10_reconnect_failure[of ex_failing_connect "''test''" "ex_stdio_config ''v2''"
         "Error ''spawn failed''" ex_configured_fleet, OF h]
    before cfg
  show ?thesis by simp
qed

section \<open>Properties of the agent loop\<close>

lemma agentTurns_calls:
  "call \<in> set (loop_calls (agentTurns P client tools k manager messages calls)) \<Longrightarrow>
   call \<in> set calls \<or> sc_tools call = tools"
proof (induction k arbitrary: manager messages calls)
  case 0
  then show ?case by simp
next
  case (Suc k)
  let ?calls' = "calls @ [\<lparr>sc_manager = manager, sc_messages = messages, sc_tools = tools\<rparr>]"
  have step: "call \<in> set ?calls' \<Longrightarrow> call \<in> set calls \<or> sc_tools call = tools" by auto
  show ?case
  proof (cases "createStream client messages tools")
    case (Inl err)
    with Suc.prems show ?thesis by (auto simp: Let_def)
  next
    case (Inr response)
    show ?thesis
    proof (cases "filter isToolUse response = []")
      case True
      with Suc.prems Inr show ?thesis by (auto simp: Let_def)
    next
      case False
      obtain outcome manager' where r: "runToolUses P manager (filter isToolUse response) [] = (outcome, manager')"
        by (cases "runToolUses P manager (filter isToolUse response) []")
      show ?thesis
      proof (cases outcome)
        case (Inl err)
        with Suc.prems Inr False r show ?thesis by (auto simp: Let_def)
      next
        case (Inr toolResults)
        with Suc.prems \<open>createStream client messages tools = Inr response\<close> False r
        have "call \<in> set (loop_calls (agentTurns P client tools k manager'
                 (messages @ [\<lparr>role = Assistant, msg_content = Blocks response\<rparr>]
                   @ [\<lparr>role = User, msg_content = Blocks toolResults\<rparr>]) ?calls'))"
          by (simp add: Let_def)
        from Suc.IH[OF this] step show ?thesis by blast
      qed
    qed
  qed
qed

text \<open>
  On every iteration of the agent loop the tool list passed to \<open>createStream\<close> is the
  translation of the catalog the fleet had when the loop was entered.
\<close>

lemma runAgentLoop_tools_once:
  assumes "getAllTools P manager = Inr allTools"
    and "call \<in> set (loop_calls (runAgentLoop P client manager messages maxTurns userMessage))"
  shows "sc_tools call = mcpToolsToClaude allTools"
  using assms unfolding runAgentLoop_def Let_def by (auto dest: agentTurns_calls)

text \<open>
  Claim C4 (on every iteration the tool list passed to \<open>createStream\<close> equals the current
  catalog of the fleet, each schema's top-level \<open>type\<close> forced to \<open>object\<close>) does not hold
  of the code, which computes the tool list once, before the first turn. The code
  evaluated: the fleet is lazy, with the toolsets \<open>github\<close> and \<open>testing\<close> not loaded;
  on the first turn the model calls \<open>spike__load_toolset\<close> for \<open>github\<close>. The second call
  of \<open>createStream\<close> still gets the three meta-tools only, while the catalog of the
  fleet at that moment also has \<open>github-mcp__create_issue\<close>. The translation sets the
  top-level \<open>type\<close> only where the schema has none: a schema of type \<open>string\<close> keeps it.
\<close>

theorem C4_stale_tool_list:
  "length (loop_calls ex_run) = 2
   \<and> loop_error ex_run = None
   \<and> map tool_name (sc_tools (loop_calls ex_run ! 0))
       = [''spike__list_toolsets'', ''spike__load_toolset'', ''spike__unload_toolset'']
   \<and> map tool_name (sc_tools (loop_calls ex_run ! 1))
       = [''spike__list_toolsets'', ''spike__load_toolset'', ''spike__unload_toolset'']
   \<and> map_sum id (\<lambda>allTools. map tool_name (mcpToolsToClaude allTools))
         (getAllTools ex_platform (sc_manager (loop_calls ex_run ! 1)))
       = Inr [''github-mcp__create_issue'',
              ''spike__list_toolsets'', ''spike__load_toolset'', ''spike__unload_toolset'']
   \<and> map input_schema (mcpToolsToClaude [ex_string_schema_tool])
       = [[(''type'', JStr ''string'')]]"
  by code_simp

section \<open>Properties of direct tool invocation\<close>

text \<open>
  Claim C5 (when a direct slash tool invocation returns a result with \<open>isError\<close> true, the
  session state is left unchanged) does not hold of \<open>handleDirectToolCall\<close>, while the
  sibling hook \<open>trackToolCallForSession\<close> does what the claim says. The code evaluated:
  in a fresh session \<open>/chess_create_game\<close>, answered with the error result
  \<open>Error: failed\<close>, records the sentinel \<open>_created\<close> under the prefix \<open>chess\<close>, and
  \<open>/set_project_root\<close>, answered with an error result, is marked as called; no identifier
  is recorded in either case, and the hook leaves the state as it was on the same error.
\<close>

theorem C5_direct_call_records_on_error:
  "res_output (handleSlashCommand ex_platform ''/chess_create_game''
                 (ex_fresh_context ''Error: failed'' True))
     = ToolOutput True ''s__chess_create_game'' ''Error: failed''
   \<and> created (res_sessionState (handleSlashCommand ex_platform ''/chess_create_game''
                 (ex_fresh_context ''Error: failed'' True)))
       = [(''chess'', [''_created''])]
   \<and> idsByKey (res_sessionState (handleSlashCommand ex_platform ''/chess_create_game''
                 (ex_fresh_context ''Error: failed'' True))) = []
   \<and> res_output (handleSlashCommand ex_platform ''/set_project_root''
                 (ex_fresh_context ''Error: failed'' True))
       = ToolOutput True ''s__set_project_root'' ''Error: no such directory''
   \<and> hasConfigBeenCalled
         (res_sessionState (handleSlashCommand ex_platform ''/set_project_root''
                 (ex_fresh_context ''Error: failed'' True)))
         ''set_project_root''
   \<and> map_sum id
         (\<lambda>allTools. trackToolCallForSession ex_platform ''s__chess_create_game''
                       ''Error: failed'' True allTools newSessionState)
         (getAllTools ex_platform (ex_chess_fleet ''Error: failed'' True))
       = Inr newSessionState"
  by code_simp

text \<open>
  Claim C6, as stated, fails: after \<open>/chess_create_game\<close> answered with
  \<open>{"id":"game_abc"}\<close> the identifier is known under the name \<open>id\<close> only, so for
  \<open>/chess_make_move {"from":"e2","to":"e4"}\<close> the required \<open>game_id\<close> stays missing;
  without an interactive channel no call is dispatched and the missing parameter is
  reported.
\<close>

theorem C6_autofill_counterexample:
  "dispatched (fst (ex_create_then_move ''{\"id\":\"game_abc\"}''))
     = Some (''s__chess_create_game'', [(''time_control'', JStr ''BLITZ_5'')])
   \<and> res_output (fst (ex_create_then_move ''{\"id\":\"game_abc\"}''))
       = ToolOutput False ''s__chess_create_game'' ''{\"id\":\"game_abc\"}''
   \<and> getLatestId (res_sessionState (fst (ex_create_then_move ''{\"id\":\"game_abc\"}''))) ''id''
       = Some ''game_abc''
   \<and> getLatestId (res_sessionState (fst (ex_create_then_move ''{\"id\":\"game_abc\"}'')))
         ''game_id'' = None
   \<and> dispatched (snd (ex_create_then_move ''{\"id\":\"game_abc\"}'')) = None
   \<and> res_output (snd (ex_create_then_move ''{\"id\":\"game_abc\"}''))
       = MissingRequiredParameters
           [\<lparr>pi_name = ''game_id'', pi_description = [], pi_type = ''string''\<rparr>]"
  by code_simp

text \<open>
  Claim C6, amended: starting from an empty session, after a successful direct invocation
  of \<open>/chess_create_game\<close> whose result text is \<open>{"game_id":"game_abc"}\<close>, a subsequent
  direct invocation \<open>/chess_make_move {"from":"e2","to":"e4"}\<close> (where \<open>game_id\<close> is a
  required parameter of the tool) dispatches the fleet call with the arguments
  \<open>from = "e2"\<close>, \<open>to = "e4"\<close> and \<open>game_id = "game_abc"\<close>: the missing required
  \<open>game_id\<close> is filled from the latest identifier observed under that same name.
\<close>

theorem C6_autofill_same_name:
  "res_output (fst (ex_create_then_move ''{\"game_id\":\"game_abc\"}''))
     = ToolOutput False ''s__chess_create_game'' ''{\"game_id\":\"game_abc\"}''
   \<and> getLatestId (res_sessionState (fst (ex_create_then_move ''{\"game_id\":\"game_abc\"}'')))
         ''game_id'' = Some ''game_abc''
   \<and> dispatched (snd (ex_create_then_move ''{\"game_id\":\"game_abc\"}''))
       = Some (''s__chess_make_move'',
               [(''from'', JStr ''e2''), (''to'', JStr ''e4''), (''game_id'', JStr ''game_abc'')])"
  by code_simp

end
